theory Spec2Isabelle
  imports Main
begin

section \<open>Core types (core/constants.go, core/permission.go, core/config.go)\<close>

text \<open>
  \<open>Action\<close> and \<open>Resource\<close> are Go string types; a Go string is a byte sequence and
  \<open>len\<close> counts bytes, which is what \<open>string\<close> (a list of 8-bit characters) gives.
\<close>

type_synonym Action = string
type_synonym Resource = string

definition ActionRead :: Action where "ActionRead = ''read''"
definition ActionWrite :: Action where "ActionWrite = ''write''"
definition ActionDelete :: Action where "ActionDelete = ''delete''"
definition ActionNone :: Action where "ActionNone = ''_none''"

definition ResourceTenant :: Resource where "ResourceTenant = ''tenant''"
definition ResourceSystem :: Resource where "ResourceSystem = ''system''"
definition ResourceUser :: Resource where "ResourceUser = ''user''"
definition ResourcePermission :: Resource where "ResourcePermission = ''permission''"
definition ResourceRole :: Resource where "ResourceRole = ''role''"
definition ResourceOrganization :: Resource where "ResourceOrganization = ''organization''"
definition ResourceTagUser :: Resource where "ResourceTagUser = ''tag_user''"
definition ResourceTagTenant :: Resource where "ResourceTagTenant = ''tag_tenant''"
definition ResourcePlaceholder :: Resource where "ResourcePlaceholder = ''_placeholder''"

lemmas Action_defs = ActionRead_def ActionWrite_def ActionDelete_def ActionNone_def
lemmas Resource_defs = ResourceTenant_def ResourceSystem_def ResourceUser_def
  ResourcePermission_def ResourceRole_def ResourceOrganization_def ResourceTagUser_def
  ResourceTagTenant_def ResourcePlaceholder_def

definition AllActions :: "Action list" where
  "AllActions = [ActionRead, ActionWrite, ActionDelete]"

text \<open>
  Go errors. \<open>Error c\<close> is a \<open>core.Error\<close> value, identified by its \<open>Code\<close> (the
  human-readable \<open>Message\<close> is not modelled). \<open>Errorf m cause\<close> is an error built by
  \<open>fmt.Errorf\<close>: \<open>m\<close> is an ASCII summary of the format string and \<open>cause\<close> the
  error formatted into it, if any. \<open>External m\<close> is a failure reported by the policy
  store or by the database driver. A Go result \<open>error\<close> is an \<open>error option\<close> (\<open>None\<close>
  is \<open>nil\<close>); a result \<open>(T, error)\<close> is \<open>error + T\<close>.
\<close>

datatype error =
    Error string
  | Errorf string "error option"
  | External string

abbreviation ErrPermissionNotFound :: error where
  "ErrPermissionNotFound \<equiv> Error ''PERMISSION_NOT_FOUND''"
abbreviation ErrRoleNotFound :: error where
  "ErrRoleNotFound \<equiv> Error ''ROLE_NOT_FOUND''"
abbreviation ErrInvalidParameter :: error where
  "ErrInvalidParameter \<equiv> Error ''INVALID_PARAMETER''"
abbreviation ErrSelfElevationPrevented :: error where
  "ErrSelfElevationPrevented \<equiv> Error ''SELF_ELEVATION_PREVENTED''"
abbreviation ErrSystemPermissionImmutable :: error where
  "ErrSystemPermissionImmutable \<equiv> Error ''SYSTEM_PERMISSION_IMMUTABLE''"
abbreviation ErrSystemRoleImmutable :: error where
  "ErrSystemRoleImmutable \<equiv> Error ''SYSTEM_ROLE_IMMUTABLE''"
abbreviation ErrSystemRoleAssignmentDenied :: error where
  "ErrSystemRoleAssignmentDenied \<equiv> Error ''SYSTEM_ROLE_ASSIGNMENT_DENIED''"
abbreviation ErrSystemRoleRemovalDenied :: error where
  "ErrSystemRoleRemovalDenied \<equiv> Error ''SYSTEM_ROLE_REMOVAL_DENIED''"
abbreviation ErrGlobalRoleAccessDenied :: error where
  "ErrGlobalRoleAccessDenied \<equiv> Error ''GLOBAL_ROLE_ACCESS_DENIED''"

text \<open>\<open>ParseAction\<close>: on failure the callers drop the returned action and keep the error.\<close>

definition ParseAction :: "string \<Rightarrow> error + Action" where
  "ParseAction s =
     (if s = ''read'' then Inr ActionRead
      else if s = ''write'' then Inr ActionWrite
      else if s = ''delete'' then Inr ActionDelete
      else if s = ''_none'' then Inr ActionNone
      else Inl (Errorf (''invalid action: '' @ s) None))"

datatype PolicyType = PolicyTypePermission | PolicyTypeGrouping

record Policy =
  Type :: PolicyType
  Subject :: string
  Domain :: string
  Resource :: Resource
  Action :: Action

text \<open>
  A row of the role table (\<open>roleMetadata\<close> in internal/role); nullable columns are
  options, the two time stamps are left out.
\<close>

record roleMetadata =
  RoleKey :: string
  Name :: string
  Description :: "string option"
  TenantKey :: string
  CreatedBy :: "string option"

record GroupingPolicy =
  UserKey :: string
  RoleKey :: string
  TenantKey :: string

record Permission =
  Resource :: Resource
  Action :: Action

record Role =
  Key :: string
  Name :: string
  Description :: string
  Permissions :: "Permission list"
  TenantKey :: string

datatype PermissionType = PermissionTypeNormal | PermissionTypeSystem

definition IsValid :: "Permission \<Rightarrow> bool" where
  "IsValid p \<longleftrightarrow> Permission.Resource p \<noteq> '''' \<and> Permission.Action p \<noteq> ''''"

record SecurityConfig =
  PreventSelfElevation :: bool
  SystemPermissions :: "Permission list"

definition DefaultSecurityConfig :: SecurityConfig where
  "DefaultSecurityConfig =
     \<lparr> PreventSelfElevation = True,
       SystemPermissions =
         [ \<lparr>Resource = ResourceTenant, Action = ActionWrite\<rparr>,
           \<lparr>Resource = ResourceTenant, Action = ActionDelete\<rparr>,
           \<lparr>Resource = ResourceTenant, Action = ActionRead\<rparr>,
           \<lparr>Resource = ResourceSystem, Action = ActionWrite\<rparr>,
           \<lparr>Resource = ResourceSystem, Action = ActionRead\<rparr>,
           \<lparr>Resource = ResourceSystem, Action = ActionDelete\<rparr>,
           \<lparr>Resource = ResourceUser, Action = ActionWrite\<rparr>,
           \<lparr>Resource = ResourceUser, Action = ActionDelete\<rparr>,
           \<lparr>Resource = ResourcePermission, Action = ActionWrite\<rparr>,
           \<lparr>Resource = ResourcePermission, Action = ActionDelete\<rparr> ] \<rparr>"

section \<open>The security validator (core: SecurityValidator)\<close>

text \<open>
  The \<open>PermissionChecker\<close> interface has the one method \<open>CheckPermission\<close>; the
  validator's field is nil until \<open>SetPermissionChecker\<close> is called, hence an option.
\<close>

type_synonym PermissionChecker = "string \<Rightarrow> string \<Rightarrow> Permission \<Rightarrow> error + bool"

record SecurityValidator =
  config :: SecurityConfig
  permissionChecker :: "PermissionChecker option"

definition NewSecurityValidator :: "SecurityConfig \<Rightarrow> SecurityValidator" where
  "NewSecurityValidator c = \<lparr> config = c, permissionChecker = None \<rparr>"

definition SetPermissionChecker :: "SecurityValidator \<Rightarrow> PermissionChecker \<Rightarrow> SecurityValidator" where
  "SetPermissionChecker sv checker = sv \<lparr> permissionChecker := Some checker \<rparr>"

text \<open>The loop of \<open>isSystemPermission\<close> over \<open>sv.config.SystemPermissions\<close>.\<close>

fun isSystemPermission_loop :: "Permission list \<Rightarrow> Permission \<Rightarrow> bool" where
  "isSystemPermission_loop [] permission = False"
| "isSystemPermission_loop (sysPerm # rest) permission =
     (if Permission.Resource permission = Permission.Resource sysPerm
         \<and> Permission.Action permission = Permission.Action sysPerm
      then True
      else isSystemPermission_loop rest permission)"

definition isSystemPermission :: "SecurityValidator \<Rightarrow> Permission \<Rightarrow> bool" where
  "isSystemPermission sv permission =
     isSystemPermission_loop (SystemPermissions (config sv)) permission"

definition GetPermissionType :: "SecurityValidator \<Rightarrow> Permission \<Rightarrow> PermissionType" where
  "GetPermissionType sv permission =
     (if isSystemPermission sv permission then PermissionTypeSystem else PermissionTypeNormal)"

definition isManagementPermission :: "SecurityValidator \<Rightarrow> Permission \<Rightarrow> bool" where
  "isManagementPermission sv permission =
     (if Permission.Resource permission = ResourcePermission
         \<and> (Permission.Action permission = ActionWrite \<or> Permission.Action permission = ActionDelete)
      then True
      else if Permission.Resource permission = ResourceUser
         \<and> (Permission.Action permission = ActionWrite \<or> Permission.Action permission = ActionDelete)
      then True
      else if Permission.Resource permission = ResourceRole
         \<and> (Permission.Action permission = ActionWrite \<or> Permission.Action permission = ActionDelete)
      then True
      else if isSystemPermission sv permission then True
      else False)"

text \<open>
  The method \<open>SecurityValidator.PreventSelfElevation\<close>; the suffix keeps it apart from
  the configuration field of the same name.
\<close>

definition PreventSelfElevation_sv ::
  "SecurityValidator \<Rightarrow> string \<Rightarrow> string \<Rightarrow> Permission \<Rightarrow> error option" where
  "PreventSelfElevation_sv sv operatorKey targetKey permission =
     (if \<not> PreventSelfElevation (config sv) then None
      else if operatorKey \<noteq> targetKey then None
      else if isManagementPermission sv permission then Some ErrSelfElevationPrevented
      else None)"

text \<open>
  \<open>validateOperatorPermission\<close>: both arms of the switch on the permission type ask the
  checker for \<open>{permission, write}\<close> in the given domain; only the message differs.
\<close>

definition validateOperatorPermission ::
  "SecurityValidator \<Rightarrow> string \<Rightarrow> string \<Rightarrow> Permission \<Rightarrow> error option" where
  "validateOperatorPermission sv operatorKey domain permission =
     (case permissionChecker sv of
        None \<Rightarrow> None
      | Some checker \<Rightarrow>
          (case GetPermissionType sv permission of
             PermissionTypeSystem \<Rightarrow>
               (case checker operatorKey domain
                       \<lparr>Resource = ResourcePermission, Action = ActionWrite\<rparr> of
                  Inl err \<Rightarrow> Some (Errorf ''error while checking operator permission'' (Some err))
                | Inr hasPermission \<Rightarrow>
                    if \<not> hasPermission
                    then Some (Errorf ''operator lacks permission management, cannot operate system permission'' None)
                    else None)
           | PermissionTypeNormal \<Rightarrow>
               (case checker operatorKey domain
                       \<lparr>Resource = ResourcePermission, Action = ActionWrite\<rparr> of
                  Inl err \<Rightarrow> Some (Errorf ''error while checking operator permission'' (Some err))
                | Inr hasPermission \<Rightarrow>
                    if \<not> hasPermission
                    then Some (Errorf ''operator lacks permission management, cannot operate permission'' None)
                    else None)))"

definition ValidatePermissionGrant ::
  "SecurityValidator \<Rightarrow> string \<Rightarrow> string \<Rightarrow> string \<Rightarrow> Permission \<Rightarrow> error option" where
  "ValidatePermissionGrant sv operatorKey targetUserKey tenantKey permission =
     (case PreventSelfElevation_sv sv operatorKey targetUserKey permission of
        Some err \<Rightarrow> Some err
      | None \<Rightarrow>
          if isSystemPermission sv permission then Some ErrSystemPermissionImmutable
          else (case validateOperatorPermission sv operatorKey tenantKey permission of
                  Some err \<Rightarrow> Some err
                | None \<Rightarrow> None))"

definition ValidatePermissionGrantWithDomain ::
  "SecurityValidator \<Rightarrow> string \<Rightarrow> string \<Rightarrow> string \<Rightarrow> Permission \<Rightarrow> error option" where
  "ValidatePermissionGrantWithDomain sv operatorKey targetUserKey operatorDomain permission =
     (case PreventSelfElevation_sv sv operatorKey targetUserKey permission of
        Some err \<Rightarrow> Some err
      | None \<Rightarrow>
          if isSystemPermission sv permission then Some ErrSystemPermissionImmutable
          else (case validateOperatorPermission sv operatorKey operatorDomain permission of
                  Some err \<Rightarrow> Some err
                | None \<Rightarrow> None))"

definition ValidatePermissionRevoke ::
  "SecurityValidator \<Rightarrow> string \<Rightarrow> string \<Rightarrow> string \<Rightarrow> Permission \<Rightarrow> error option" where
  "ValidatePermissionRevoke sv operatorKey targetUserKey tenantKey permission =
     (case PreventSelfElevation_sv sv operatorKey targetUserKey permission of
        Some err \<Rightarrow> Some err
      | None \<Rightarrow>
          if isSystemPermission sv permission then Some ErrSystemPermissionImmutable
          else (case validateOperatorPermission sv operatorKey tenantKey permission of
                  Some err \<Rightarrow> Some err
                | None \<Rightarrow> None))"

section \<open>Go slicing and the tenant-initialisation test (engine/handler.go)\<close>

text \<open>
  A slice expression \<open>s[lo:hi]\<close> on a string panics at run time unless
  \<open>0 \<le> lo \<le> hi \<le> len(s)\<close>. Indices are Go \<open>int\<close>s; the only arithmetic on them here
  is \<open>len(s) - 9\<close>, \<open>len(s) - 6\<close> and \<open>len(s) - 4\<close>, which cannot overflow, so they are
  modelled as \<open>int\<close>.
\<close>

datatype panic = SliceBoundsOutOfRange

definition slice :: "string \<Rightarrow> int \<Rightarrow> int \<Rightarrow> panic + string" where
  "slice s lo hi =
     (if 0 \<le> lo \<and> lo \<le> hi \<and> hi \<le> int (length s)
      then Inr (take (nat (hi - lo)) (drop (nat lo) s))
      else Inl SliceBoundsOutOfRange)"

text \<open>
  The final expression is \<open>len(userKey) > 5 && (a || b || c)\<close>; \<open>&&\<close> and \<open>||\<close>
  evaluate left to right and stop early, so each slice is taken only when the operands
  before it did not decide the result.
\<close>

definition isTenantInitializationScenario :: "string \<Rightarrow> string \<Rightarrow> string \<Rightarrow> panic + bool" where
  "isTenantInitializationScenario userKey roleKey tenantKey =
     (let n = int (length userKey) in
      if roleKey \<noteq> ''admin'' then Inr False
      else if tenantKey = '''' \<or> tenantKey = ''*'' then Inr False
      else if \<not> n > 5 then Inr False
      else (case slice userKey 0 5 of
              Inl p \<Rightarrow> Inl p
            | Inr a \<Rightarrow>
                if a = ''admin'' then Inr True
                else (case slice userKey (n - 6) n of
                        Inl p \<Rightarrow> Inl p
                      | Inr b \<Rightarrow>
                          if b = ''-admin'' then Inr True
                          else (case slice userKey (n - 9) (n - 4) of
                                  Inl p \<Rightarrow> Inl p
                                | Inr c \<Rightarrow> Inr (c = ''-admin-'')))))"

section \<open>The policy store as the enforcer reads it\<close>

text \<open>
  \<open>core.Enforcer\<close> wraps a \<open>casbin.Enforcer\<close>. casbin is an external library, so the
  four read methods the wrapper calls are parameters of the model: a record of
  functions, one per method, each with the result type of the Go method. Nothing is
  assumed about what they return. A rule is a list of strings, as in casbin.
\<close>

record casbin =
  GetPolicy :: "error + string list list"
  GetGroupingPolicy :: "error + string list list"
  GetPermissionsForUser :: "string \<Rightarrow> string \<Rightarrow> error + string list list"
  GetRolesForUserInDomain :: "string \<Rightarrow> string \<Rightarrow> string list"

section \<open>core.Enforcer: queries\<close>

text \<open>
  The loop of \<open>GetPolicies\<close>: every rule with at least four fields has its action
  parsed (an unparsable action aborts the whole query), and is kept when subject and
  domain match; an empty filter matches everything.
\<close>

fun GetPolicies_loop :: "string \<Rightarrow> string \<Rightarrow> string list list \<Rightarrow> error + Policy list" where
  "GetPolicies_loop subject domain [] = Inr []"
| "GetPolicies_loop subject domain (policy # rest) =
     (if length policy \<ge> 4 then
        (case ParseAction (policy ! 3) of
           Inl err \<Rightarrow> Inl err
         | Inr action \<Rightarrow>
             (case GetPolicies_loop subject domain rest of
                Inl err \<Rightarrow> Inl err
              | Inr policies \<Rightarrow>
                  if (subject = '''' \<or> policy ! 0 = subject) \<and> (domain = '''' \<or> policy ! 1 = domain)
                  then Inr (\<lparr> Type = PolicyTypePermission, Subject = policy ! 0, Domain = policy ! 1,
                              Policy.Resource = policy ! 2, Policy.Action = action \<rparr> # policies)
                  else Inr policies))
      else GetPolicies_loop subject domain rest)"

definition GetPolicies :: "casbin \<Rightarrow> string \<Rightarrow> string \<Rightarrow> error + Policy list" where
  "GetPolicies e subject domain =
     (case GetPolicy e of
        Inl err \<Rightarrow> Inl err
      | Inr allPolicies \<Rightarrow> GetPolicies_loop subject domain allPolicies)"

definition GetAllPolicies :: "casbin \<Rightarrow> error + Policy list" where
  "GetAllPolicies e = GetPolicies e '''' ''''"

fun GetGroupingPolicies_loop :: "string list list \<Rightarrow> GroupingPolicy list" where
  "GetGroupingPolicies_loop [] = []"
| "GetGroupingPolicies_loop (policy # rest) =
     (if length policy \<ge> 3
      then \<lparr> UserKey = policy ! 0, RoleKey = policy ! 1, GroupingPolicy.TenantKey = policy ! 2 \<rparr>
             # GetGroupingPolicies_loop rest
      else GetGroupingPolicies_loop rest)"

definition GetGroupingPolicies :: "casbin \<Rightarrow> error + GroupingPolicy list" where
  "GetGroupingPolicies e =
     (case GetGroupingPolicy e of
        Inl err \<Rightarrow> Inl err
      | Inr allGroupPolicies \<Rightarrow> Inr (GetGroupingPolicies_loop allGroupPolicies))"

definition GetRolesForUser :: "casbin \<Rightarrow> string \<Rightarrow> string \<Rightarrow> error + string list" where
  "GetRolesForUser e userKey domain = Inr (GetRolesForUserInDomain e userKey domain)"

text \<open>
  \<open>GetImplicitPermissions\<close>, step by step. The role list is deduplicated with a map of
  the roles seen so far, keeping first occurrences; errors of \<open>GetPermissionsForUser\<close>
  are skipped (\<open>if err == nil\<close>); the final loop turns rules of at least four fields
  into permissions and fails on the first action that does not parse.
\<close>

fun uniqueRoles_loop :: "string list \<Rightarrow> string list \<Rightarrow> string list" where
  "uniqueRoles_loop roleMap [] = []"
| "uniqueRoles_loop roleMap (role # rest) =
     (if role \<in> set roleMap then uniqueRoles_loop roleMap rest
      else role # uniqueRoles_loop (role # roleMap) rest)"

definition permissionsForUser_or_nothing :: "casbin \<Rightarrow> string \<Rightarrow> string \<Rightarrow> string list list" where
  "permissionsForUser_or_nothing e subject domain =
     (case GetPermissionsForUser e subject domain of
        Inr policies \<Rightarrow> policies
      | Inl err \<Rightarrow> [])"

fun toPermissions_loop :: "string list list \<Rightarrow> error + Permission list" where
  "toPermissions_loop [] = Inr []"
| "toPermissions_loop (policy # rest) =
     (if length policy \<ge> 4 then
        (case ParseAction (policy ! 3) of
           Inl err \<Rightarrow> Inl err
         | Inr action \<Rightarrow>
             (case toPermissions_loop rest of
                Inl err \<Rightarrow> Inl err
              | Inr permissions \<Rightarrow>
                  Inr (\<lparr> Resource = policy ! 2, Action = action \<rparr> # permissions)))
      else toPermissions_loop rest)"

definition GetImplicitPermissions :: "casbin \<Rightarrow> string \<Rightarrow> string \<Rightarrow> error + Permission list" where
  "GetImplicitPermissions e userKey domain =
     (let userPolicies = permissionsForUser_or_nothing e userKey domain;
          tenantRoles = GetRolesForUserInDomain e userKey domain;
          allRoles = tenantRoles @
            (if domain \<noteq> ''*'' then GetRolesForUserInDomain e userKey ''*'' else []);
          uniqueRoles = uniqueRoles_loop [] allRoles;
          domainsToCheck = [''*''] @ (if domain \<noteq> ''*'' then [domain] else []);
          allPolicies = userPolicies @
            concat (map (\<lambda>role.
              concat (map (\<lambda>checkDomain. permissionsForUser_or_nothing e role checkDomain)
                domainsToCheck)) uniqueRoles)
      in toPermissions_loop allPolicies)"

fun CheckPermission_loop :: "Permission list \<Rightarrow> Permission \<Rightarrow> bool" where
  "CheckPermission_loop [] permission = False"
| "CheckPermission_loop (userPerm # rest) permission =
     (if Permission.Resource userPerm = Permission.Resource permission
         \<and> Permission.Action userPerm = Permission.Action permission
      then True
      else CheckPermission_loop rest permission)"

definition CheckPermission :: "casbin \<Rightarrow> string \<Rightarrow> string \<Rightarrow> Permission \<Rightarrow> error + bool" where
  "CheckPermission e subject domain permission =
     (case GetImplicitPermissions e subject domain of
        Inl err \<Rightarrow> Inl err
      | Inr userPermissions \<Rightarrow> Inr (CheckPermission_loop userPermissions permission))"

text \<open>
  \<open>GetDirectPermissions\<close> filters all rules by subject and domain (no wildcard here) and
  parses the action of the matching rules only. The placeholder rule is not treated
  specially.
\<close>

fun GetDirectPermissions_loop :: "string \<Rightarrow> string \<Rightarrow> string list list \<Rightarrow> error + Permission list" where
  "GetDirectPermissions_loop userKey domain [] = Inr []"
| "GetDirectPermissions_loop userKey domain (policy # rest) =
     (if length policy \<ge> 4 then
        (if policy ! 0 = userKey \<and> policy ! 1 = domain then
           (case ParseAction (policy ! 3) of
              Inl err \<Rightarrow> Inl err
            | Inr action \<Rightarrow>
                (case GetDirectPermissions_loop userKey domain rest of
                   Inl err \<Rightarrow> Inl err
                 | Inr permissions \<Rightarrow>
                     Inr (\<lparr> Resource = policy ! 2, Action = action \<rparr> # permissions)))
         else GetDirectPermissions_loop userKey domain rest)
      else GetDirectPermissions_loop userKey domain rest)"

definition GetDirectPermissions :: "casbin \<Rightarrow> string \<Rightarrow> string \<Rightarrow> error + Permission list" where
  "GetDirectPermissions e userKey domain =
     (case GetPolicy e of
        Inl err \<Rightarrow> Inl err
      | Inr allPolicies \<Rightarrow> GetDirectPermissions_loop userKey domain allPolicies)"

definition IsRoleAssigned :: "casbin \<Rightarrow> string \<Rightarrow> string \<Rightarrow> string \<Rightarrow> error + bool" where
  "IsRoleAssigned e userKey roleKey domain =
     (case GetRolesForUser e userKey domain of
        Inl err \<Rightarrow> Inl err
      | Inr roles \<Rightarrow> Inr (roleKey \<in> set roles))"

fun HasDirectPermission_loop :: "Policy list \<Rightarrow> Permission \<Rightarrow> bool" where
  "HasDirectPermission_loop [] permission = False"
| "HasDirectPermission_loop (policy # rest) permission =
     (if Policy.Resource policy = Permission.Resource permission
         \<and> Policy.Action policy = Permission.Action permission
      then True
      else HasDirectPermission_loop rest permission)"

definition HasDirectPermission :: "casbin \<Rightarrow> string \<Rightarrow> string \<Rightarrow> Permission \<Rightarrow> error + bool" where
  "HasDirectPermission e subject domain permission =
     (case GetPolicies e subject domain of
        Inl err \<Rightarrow> Inl err
      | Inr policies \<Rightarrow> Inr (HasDirectPermission_loop policies permission))"

definition IsRoleInUse :: "casbin \<Rightarrow> string \<Rightarrow> error + bool" where
  "IsRoleInUse e roleKey =
     (case GetGroupingPolicies e of
        Inl err \<Rightarrow> Inl err
      | Inr groupPolicies \<Rightarrow> Inr (list_ex (\<lambda>policy. RoleKey policy = roleKey) groupPolicies))"

definition GetUsersWithRole :: "casbin \<Rightarrow> string \<Rightarrow> string \<Rightarrow> error + string list" where
  "GetUsersWithRole e roleKey domain =
     (case GetGroupingPolicies e of
        Inl err \<Rightarrow> Inl err
      | Inr groupPolicies \<Rightarrow>
          Inr (map UserKey
                (filter (\<lambda>policy. RoleKey policy = roleKey
                           \<and> (domain = '''' \<or> GroupingPolicy.TenantKey policy = domain))
                   groupPolicies)))"

section \<open>The check manager (internal/check)\<close>

definition checkManager_CheckPermission ::
  "casbin \<Rightarrow> string \<Rightarrow> string \<Rightarrow> Permission \<Rightarrow> error + bool" where
  "checkManager_CheckPermission e userKey tenantKey permission =
     CheckPermission e userKey tenantKey permission"

definition coreResources :: "Resource list" where
  "coreResources =
     [ResourceUser, ResourceRole, ResourcePermission, ResourceSystem, ResourceTenant]"

text \<open>
  The nested loops of step 3 of \<open>CanAccessTenant\<close>: the inner one over \<open>AllActions\<close>, the
  outer one over the core resources. Either returns at the first error or the first
  permission held.
\<close>

fun CanAccessTenant_actions ::
  "casbin \<Rightarrow> string \<Rightarrow> string \<Rightarrow> Resource \<Rightarrow> Action list \<Rightarrow> error + bool" where
  "CanAccessTenant_actions e userKey tenantKey resource [] = Inr False"
| "CanAccessTenant_actions e userKey tenantKey resource (action # rest) =
     (case checkManager_CheckPermission e userKey tenantKey
             \<lparr> Resource = resource, Action = action \<rparr> of
        Inl err \<Rightarrow> Inl err
      | Inr hasPermission \<Rightarrow>
          if hasPermission then Inr True
          else CanAccessTenant_actions e userKey tenantKey resource rest)"

fun CanAccessTenant_resources ::
  "casbin \<Rightarrow> string \<Rightarrow> string \<Rightarrow> Resource list \<Rightarrow> error + bool" where
  "CanAccessTenant_resources e userKey tenantKey [] = Inr False"
| "CanAccessTenant_resources e userKey tenantKey (resource # rest) =
     (case CanAccessTenant_actions e userKey tenantKey resource AllActions of
        Inl err \<Rightarrow> Inl err
      | Inr found \<Rightarrow>
          if found then Inr True
          else CanAccessTenant_resources e userKey tenantKey rest)"

definition CanAccessTenant :: "casbin \<Rightarrow> string \<Rightarrow> string \<Rightarrow> error + bool" where
  "CanAccessTenant e userKey tenantKey =
     (case checkManager_CheckPermission e userKey ''*''
             \<lparr> Resource = ResourceTenant, Action = ActionRead \<rparr> of
        Inl err \<Rightarrow> Inl err
      | Inr hasTenantReadPermission \<Rightarrow>
          if hasTenantReadPermission then Inr True
          else (case GetRolesForUser e userKey tenantKey of
                  Inl err \<Rightarrow> Inl err
                | Inr roles \<Rightarrow>
                    if length roles > 0 then Inr True
                    else CanAccessTenant_resources e userKey tenantKey coreResources))"

section \<open>The state: policy rules and the role table\<close>

text \<open>
  What the engine mutates lives outside the repository: the rules held by casbin
  (permission rules \<open>p\<close> and grouping rules \<open>g\<close>) and the rows of the SQL table of role
  metadata. The state below holds the three; permission rules have the four fields
  subject, domain, resource, action, grouping rules the three fields user, role, domain,
  and the table is keyed by \<open>role_key\<close>. The time stamps of a row are not modelled.
\<close>

record world =
  p_rules :: "(string \<times> string \<times> string \<times> string) list"
  g_rules :: "(string \<times> string \<times> string) list"
  roles_tbl :: "string \<Rightarrow> roleMetadata option"

definition p_fields :: "string \<times> string \<times> string \<times> string \<Rightarrow> string list" where
  "p_fields rule = (case rule of (sub, dmn, obj, act) \<Rightarrow> [sub, dmn, obj, act])"

definition g_fields :: "string \<times> string \<times> string \<Rightarrow> string list" where
  "g_fields rule = (case rule of (user, role, dmn) \<Rightarrow> [user, role, dmn])"

definition p_matches :: "string \<Rightarrow> string \<Rightarrow> string \<times> string \<times> string \<times> string \<Rightarrow> bool" where
  "p_matches subjectFilter domainFilter rule =
     (case rule of (sub, dmn, obj, act) \<Rightarrow>
        (subjectFilter = '''' \<or> sub = subjectFilter) \<and> (domainFilter = '''' \<or> dmn = domainFilter))"

definition g_matches :: "string \<Rightarrow> string \<Rightarrow> string \<times> string \<times> string \<Rightarrow> bool" where
  "g_matches name domain rule = (case rule of (user, role, dmn) \<Rightarrow> user = name \<and> dmn = domain)"

definition g_role :: "string \<times> string \<times> string \<Rightarrow> string" where
  "g_role rule = (case rule of (user, role, dmn) \<Rightarrow> role)"

text \<open>
  Modelled from the spec: the Policy Store (casbin, its adapter and its role manager) is
  an external collaborator whose code is not under src/. Its contract (spec, External
  Interfaces) is: \<open>QueryTuples(subjectFilter, domainFilter)\<close> with the empty filter as
  a wildcard, \<open>PermissionsOf(subject, domain)\<close>, \<open>RolesAssigned(subject, domain)\<close>,
  \<open>AddTuple\<close> and \<open>RemoveTuple\<close>. The store keeps rules in insertion order and without
  duplicates; adding a rule that is there and removing one that is not change nothing
  and are not errors; role lookups return the roles assigned directly in that domain.
  In this model the store itself never fails.
\<close>

definition casbin_of :: "world \<Rightarrow> casbin" where
  "casbin_of w =
     \<lparr> GetPolicy = Inr (map p_fields (p_rules w)),
       GetGroupingPolicy = Inr (map g_fields (g_rules w)),
       GetPermissionsForUser =
         (\<lambda>user domain. Inr (map p_fields (filter (p_matches user domain) (p_rules w)))),
       GetRolesForUserInDomain =
         (\<lambda>name domain. map g_role (filter (g_matches name domain) (g_rules w))) \<rparr>"

definition casbin_AddPolicy ::
  "world \<Rightarrow> string \<Rightarrow> string \<Rightarrow> string \<Rightarrow> string \<Rightarrow> world \<times> error option" where
  "casbin_AddPolicy w sub dmn obj act =
     (if (sub, dmn, obj, act) \<in> set (p_rules w) then (w, None)
      else (w \<lparr> p_rules := p_rules w @ [(sub, dmn, obj, act)] \<rparr>, None))"

definition casbin_RemovePolicy ::
  "world \<Rightarrow> string \<Rightarrow> string \<Rightarrow> string \<Rightarrow> string \<Rightarrow> world \<times> error option" where
  "casbin_RemovePolicy w sub dmn obj act =
     (w \<lparr> p_rules := removeAll (sub, dmn, obj, act) (p_rules w) \<rparr>, None)"

definition casbin_AddRoleForUserInDomain ::
  "world \<Rightarrow> string \<Rightarrow> string \<Rightarrow> string \<Rightarrow> world \<times> error option" where
  "casbin_AddRoleForUserInDomain w user role dmn =
     (if (user, role, dmn) \<in> set (g_rules w) then (w, None)
      else (w \<lparr> g_rules := g_rules w @ [(user, role, dmn)] \<rparr>, None))"

definition casbin_DeleteRoleForUserInDomain ::
  "world \<Rightarrow> string \<Rightarrow> string \<Rightarrow> string \<Rightarrow> world \<times> error option" where
  "casbin_DeleteRoleForUserInDomain w user role dmn =
     (w \<lparr> g_rules := removeAll (user, role, dmn) (g_rules w) \<rparr>, None)"

text \<open>
  Modelled from the spec: the Role Metadata Catalog is a relational table outside the
  repository (create, update, delete and get by key, and an existence check by key).
  The five SQL statements of the role and user managers are read off as operations on
  the table: \<open>INSERT\<close> fails on an existing key (\<open>role_key\<close> is the primary key),
  \<open>UPDATE\<close> and \<open>DELETE\<close> of a missing key change nothing, and selecting a missing row
  is the driver's not-found error.
\<close>

definition sql_count_role :: "world \<Rightarrow> string \<Rightarrow> error + nat" where
  "sql_count_role w roleKey = Inr (case roles_tbl w roleKey of None \<Rightarrow> 0 | Some row \<Rightarrow> 1)"

definition sql_insert_role ::
  "world \<Rightarrow> string \<Rightarrow> string \<Rightarrow> string \<Rightarrow> string \<Rightarrow> string \<Rightarrow> world \<times> error option" where
  "sql_insert_role w roleKey name description tenantKey createdBy =
     (case roles_tbl w roleKey of
        Some row \<Rightarrow> (w, Some (External ''duplicate key value violates unique constraint''))
      | None \<Rightarrow>
          (w \<lparr> roles_tbl := (roles_tbl w)
                 (roleKey := Some \<lparr> roleMetadata.RoleKey = roleKey, roleMetadata.Name = name,
                                    roleMetadata.Description = Some description,
                                    roleMetadata.TenantKey = tenantKey,
                                    CreatedBy = Some createdBy \<rparr>) \<rparr>, None))"

definition sql_update_role ::
  "world \<Rightarrow> string \<Rightarrow> string \<Rightarrow> string \<Rightarrow> world \<times> error option" where
  "sql_update_role w roleKey name description =
     (case roles_tbl w roleKey of
        None \<Rightarrow> (w, None)
      | Some row \<Rightarrow>
          (w \<lparr> roles_tbl := (roles_tbl w)
                 (roleKey := Some (row \<lparr> roleMetadata.Name := name,
                                         roleMetadata.Description := Some description \<rparr>)) \<rparr>, None))"

definition sql_delete_role :: "world \<Rightarrow> string \<Rightarrow> world \<times> error option" where
  "sql_delete_role w roleKey = (w \<lparr> roles_tbl := (roles_tbl w) (roleKey := None) \<rparr>, None)"

definition sql_select_role :: "world \<Rightarrow> string \<Rightarrow> error + roleMetadata" where
  "sql_select_role w roleKey =
     (case roles_tbl w roleKey of
        None \<Rightarrow> Inl (External ''sql: no rows in result set'')
      | Some row \<Rightarrow> Inr row)"

section \<open>core.Enforcer: updates\<close>

text \<open>
  A mutating Go method returns an error and leaves its effect in the store; the model
  returns the state after the call together with the error (\<open>None\<close> for nil).
\<close>

definition AddPolicy :: "world \<Rightarrow> string \<Rightarrow> string \<Rightarrow> Permission \<Rightarrow> world \<times> error option" where
  "AddPolicy w subject domain permission =
     casbin_AddPolicy w subject domain (Permission.Resource permission) (Permission.Action permission)"

definition RemovePolicy :: "world \<Rightarrow> string \<Rightarrow> string \<Rightarrow> Permission \<Rightarrow> world \<times> error option" where
  "RemovePolicy w subject domain permission =
     casbin_RemovePolicy w subject domain (Permission.Resource permission) (Permission.Action permission)"

fun ClearPolicies_loop :: "world \<Rightarrow> Policy list \<Rightarrow> world \<times> error option" where
  "ClearPolicies_loop w [] = (w, None)"
| "ClearPolicies_loop w (policy # rest) =
     (case casbin_RemovePolicy w (Subject policy) (Domain policy)
             (Policy.Resource policy) (Policy.Action policy) of
        (w', Some err) \<Rightarrow> (w', Some err)
      | (w', None) \<Rightarrow> ClearPolicies_loop w' rest)"

definition ClearPolicies :: "world \<Rightarrow> string \<Rightarrow> world \<times> error option" where
  "ClearPolicies w subject =
     (case GetPolicies (casbin_of w) subject '''' of
        Inl err \<Rightarrow> (w, Some err)
      | Inr policies \<Rightarrow> ClearPolicies_loop w policies)"

definition AddGroupingPolicy :: "world \<Rightarrow> string \<Rightarrow> string \<Rightarrow> string \<Rightarrow> world \<times> error option" where
  "AddGroupingPolicy w userKey roleKey domain =
     casbin_AddRoleForUserInDomain w userKey roleKey domain"

definition RemoveGroupingPolicy :: "world \<Rightarrow> string \<Rightarrow> string \<Rightarrow> string \<Rightarrow> world \<times> error option" where
  "RemoveGroupingPolicy w userKey roleKey domain =
     casbin_DeleteRoleForUserInDomain w userKey roleKey domain"

section \<open>The user manager (internal/user)\<close>

text \<open>
  \<open>isRoleExistsInDB\<close> is defined twice in the source, with the same body, once in the
  user manager and once in the role manager.
\<close>

definition isRoleExistsInDB :: "world \<Rightarrow> string \<Rightarrow> error + bool" where
  "isRoleExistsInDB w roleKey =
     (case sql_count_role w roleKey of
        Inl err \<Rightarrow> Inl err
      | Inr count \<Rightarrow> Inr (count > 0))"

definition validateParams :: "string \<Rightarrow> Permission \<Rightarrow> error option" where
  "validateParams userKey permission =
     (if userKey = '''' \<or> Permission.Resource permission = '''' \<or> Permission.Action permission = ''''
      then Some ErrInvalidParameter
      else None)"

definition validateNotRole :: "world \<Rightarrow> string \<Rightarrow> error option" where
  "validateNotRole w subject =
     (case isRoleExistsInDB w subject of
        Inl err \<Rightarrow> Some err
      | Inr isRole \<Rightarrow>
          if isRole then Some (Errorf ''permissions of a role cannot be operated directly'' None)
          else (case IsRoleInUse (casbin_of w) subject of
                  Inl err \<Rightarrow> Some err
                | Inr isInUse \<Rightarrow>
                    if isInUse
                    then Some (Errorf ''permissions of a role cannot be operated directly'' None)
                    else None))"

definition validateRoleExists :: "world \<Rightarrow> string \<Rightarrow> error option" where
  "validateRoleExists w roleKey =
     (case isRoleExistsInDB w roleKey of
        Inl err \<Rightarrow> Some err
      | Inr isRole \<Rightarrow>
          if isRole then None
          else (case GetPolicies (casbin_of w) roleKey '''' of
                  Inl err \<Rightarrow> Some err
                | Inr policies \<Rightarrow>
                    if length policies > 0 then None
                    else (case IsRoleInUse (casbin_of w) roleKey of
                            Inl err \<Rightarrow> Some err
                          | Inr isInUse \<Rightarrow>
                              if isInUse then None
                              else Some (Errorf ''role does not exist'' None))))"

definition userManager_GrantPermission ::
  "world \<Rightarrow> string \<Rightarrow> string \<Rightarrow> string \<Rightarrow> Permission \<Rightarrow> world \<times> error option" where
  "userManager_GrantPermission w operatorKey userKey tenantKey permission =
     (case validateParams userKey permission of
        Some err \<Rightarrow> (w, Some err)
      | None \<Rightarrow>
          (case validateNotRole w userKey of
             Some err \<Rightarrow> (w, Some err)
           | None \<Rightarrow> AddPolicy w userKey tenantKey permission))"

definition userManager_RevokePermission ::
  "world \<Rightarrow> string \<Rightarrow> string \<Rightarrow> string \<Rightarrow> Permission \<Rightarrow> world \<times> error option" where
  "userManager_RevokePermission w operatorKey userKey tenantKey permission =
     (case validateParams userKey permission of
        Some err \<Rightarrow> (w, Some err)
      | None \<Rightarrow>
          (case validateNotRole w userKey of
             Some err \<Rightarrow> (w, Some err)
           | None \<Rightarrow> RemovePolicy w userKey tenantKey permission))"

definition userManager_GetDirectPermissions ::
  "world \<Rightarrow> string \<Rightarrow> string \<Rightarrow> error + Permission list" where
  "userManager_GetDirectPermissions w userKey tenantKey =
     (if userKey = '''' then Inl ErrInvalidParameter
      else (case validateNotRole w userKey of
              Some err \<Rightarrow> Inr []
            | None \<Rightarrow> GetDirectPermissions (casbin_of w) userKey tenantKey))"

definition userManager_GetEffectivePermissions ::
  "world \<Rightarrow> string \<Rightarrow> string \<Rightarrow> error + Permission list" where
  "userManager_GetEffectivePermissions w userKey tenantKey =
     (if userKey = '''' then Inl ErrInvalidParameter
      else GetImplicitPermissions (casbin_of w) userKey tenantKey)"

definition userManager_AssignRole ::
  "world \<Rightarrow> string \<Rightarrow> string \<Rightarrow> string \<Rightarrow> string \<Rightarrow> world \<times> error option" where
  "userManager_AssignRole w operatorKey userKey roleKey tenantKey =
     (if userKey = '''' \<or> roleKey = '''' then (w, Some ErrInvalidParameter)
      else (case validateNotRole w userKey of
              Some err \<Rightarrow> (w, Some err)
            | None \<Rightarrow>
                (case validateRoleExists w roleKey of
                   Some err \<Rightarrow> (w, Some err)
                 | None \<Rightarrow> AddGroupingPolicy w userKey roleKey tenantKey)))"

definition userManager_RemoveRole ::
  "world \<Rightarrow> string \<Rightarrow> string \<Rightarrow> string \<Rightarrow> string \<Rightarrow> world \<times> error option" where
  "userManager_RemoveRole w operatorKey userKey roleKey tenantKey =
     (if userKey = '''' \<or> roleKey = '''' then (w, Some ErrInvalidParameter)
      else (case validateNotRole w userKey of
              Some err \<Rightarrow> (w, Some err)
            | None \<Rightarrow> RemoveGroupingPolicy w userKey roleKey tenantKey))"

section \<open>The role manager (internal/role)\<close>

definition createRoleMetadata ::
  "world \<Rightarrow> string \<Rightarrow> string \<Rightarrow> string \<Rightarrow> string \<Rightarrow> string \<Rightarrow> world \<times> error option" where
  "createRoleMetadata w roleKey name description tenantKey createdBy =
     sql_insert_role w roleKey name description tenantKey createdBy"

definition updateRoleMetadata ::
  "world \<Rightarrow> string \<Rightarrow> string \<Rightarrow> string \<Rightarrow> world \<times> error option" where
  "updateRoleMetadata w roleKey name description = sql_update_role w roleKey name description"

definition deleteRoleMetadata :: "world \<Rightarrow> string \<Rightarrow> world \<times> error option" where
  "deleteRoleMetadata w roleKey = sql_delete_role w roleKey"

definition getRoleMetadata :: "world \<Rightarrow> string \<Rightarrow> error + roleMetadata" where
  "getRoleMetadata w roleKey = sql_select_role w roleKey"

definition isRoleExists :: "world \<Rightarrow> string \<Rightarrow> error + bool" where
  "isRoleExists w roleKey =
     (case isRoleExistsInDB w roleKey of
        Inl err \<Rightarrow> Inl err
      | Inr exists \<Rightarrow>
          if exists then Inr True
          else (case GetPolicies (casbin_of w) roleKey '''' of
                  Inl err \<Rightarrow> Inl err
                | Inr policies \<Rightarrow>
                    if length policies > 0 then Inr True
                    else IsRoleInUse (casbin_of w) roleKey))"

definition roleManager_isSystemPermission :: "SecurityValidator \<Rightarrow> Permission \<Rightarrow> bool" where
  "roleManager_isSystemPermission sv permission \<longleftrightarrow>
     GetPermissionType sv permission = PermissionTypeSystem"

text \<open>The loop of \<open>GetRolePermissions\<close>: the placeholder rule is skipped.\<close>

fun GetRolePermissions_loop :: "Policy list \<Rightarrow> Permission list" where
  "GetRolePermissions_loop [] = []"
| "GetRolePermissions_loop (policy # rest) =
     (if Policy.Resource policy = ResourcePlaceholder \<and> Policy.Action policy = ActionNone
      then GetRolePermissions_loop rest
      else \<lparr> Resource = Policy.Resource policy, Action = Policy.Action policy \<rparr>
             # GetRolePermissions_loop rest)"

definition GetRolePermissions :: "world \<Rightarrow> string \<Rightarrow> error + Permission list" where
  "GetRolePermissions w roleKey =
     (if roleKey = '''' then Inl ErrInvalidParameter
      else (case isRoleExistsInDB w roleKey of
              Inl err \<Rightarrow> Inl err
            | Inr isRole \<Rightarrow>
                if \<not> isRole then Inl (Errorf ''not a valid role'' None)
                else (case GetPolicies (casbin_of w) roleKey '''' of
                        Inl err \<Rightarrow> Inl err
                      | Inr policies \<Rightarrow> Inr (GetRolePermissions_loop policies))))"

fun HasSystemPermissions_loop :: "SecurityValidator \<Rightarrow> Permission list \<Rightarrow> bool" where
  "HasSystemPermissions_loop sv [] = False"
| "HasSystemPermissions_loop sv (perm # rest) =
     (if roleManager_isSystemPermission sv perm then True
      else HasSystemPermissions_loop sv rest)"

definition HasSystemPermissions :: "SecurityValidator \<Rightarrow> world \<Rightarrow> string \<Rightarrow> error + bool" where
  "HasSystemPermissions sv w roleKey =
     (if roleKey = '''' then Inl ErrInvalidParameter
      else (case isRoleExistsInDB w roleKey of
              Inl err \<Rightarrow> Inl err
            | Inr isRole \<Rightarrow>
                if \<not> isRole then Inr False
                else (case GetRolePermissions w roleKey of
                        Inl err \<Rightarrow> Inl err
                      | Inr permissions \<Rightarrow> Inr (HasSystemPermissions_loop sv permissions))))"

text \<open>
  The guard \<open>if hasSystemPerms, _ := m.HasSystemPermissions(roleKey); hasSystemPerms\<close>:
  the error is dropped, and on an error the boolean is false.
\<close>

definition hasSystemPerms_ignoring_error :: "SecurityValidator \<Rightarrow> world \<Rightarrow> string \<Rightarrow> bool" where
  "hasSystemPerms_ignoring_error sv w roleKey =
     (case HasSystemPermissions sv w roleKey of
        Inl err \<Rightarrow> False
      | Inr hasSystemPerms \<Rightarrow> hasSystemPerms)"

definition UserRoleHasSystemPermissions ::
  "SecurityValidator \<Rightarrow> world \<Rightarrow> string \<Rightarrow> string \<Rightarrow> string \<Rightarrow> error + bool" where
  "UserRoleHasSystemPermissions sv w userKey roleKey tenantKey =
     (if userKey = '''' \<or> roleKey = '''' then Inl ErrInvalidParameter
      else (case isRoleExistsInDB w roleKey of
              Inl err \<Rightarrow> Inl err
            | Inr isRole \<Rightarrow>
                if \<not> isRole then Inr False
                else (case IsRoleAssigned (casbin_of w) userKey roleKey tenantKey of
                        Inl err \<Rightarrow> Inl err
                      | Inr hasRole \<Rightarrow>
                          if \<not> hasRole then Inr False
                          else HasSystemPermissions sv w roleKey)))"

definition GetRole :: "world \<Rightarrow> string \<Rightarrow> error + Role" where
  "GetRole w roleKey =
     (if roleKey = '''' then Inl ErrInvalidParameter
      else (case getRoleMetadata w roleKey of
              Inl err \<Rightarrow> Inl (Errorf ''role does not exist'' None)
            | Inr roleMetadata \<Rightarrow>
                (case GetRolePermissions w roleKey of
                   Inl err \<Rightarrow> Inl err
                 | Inr permissions \<Rightarrow>
                     Inr \<lparr> Key = roleMetadata.RoleKey roleMetadata,
                           Name = roleMetadata.Name roleMetadata,
                           Description =
                             (case roleMetadata.Description roleMetadata of
                                Some description \<Rightarrow> description
                              | None \<Rightarrow> ''''),
                           Permissions = permissions,
                           TenantKey = roleMetadata.TenantKey roleMetadata \<rparr>)))"

definition roleManager_GetUsersWithRole :: "world \<Rightarrow> string \<Rightarrow> string \<Rightarrow> error + string list" where
  "roleManager_GetUsersWithRole w roleKey tenantKey =
     (if roleKey = '''' then Inl ErrInvalidParameter
      else GetUsersWithRole (casbin_of w) roleKey tenantKey)"

text \<open>
  \<open>setRolePermissions\<close> and \<open>setRolePermissionsInTenant\<close> have the same body: clear the
  role's rules, add one rule per valid permission, add the placeholder when the list is
  empty. Only the domain differs: the first writes to \<open>*\<close>, the second to the tenant it
  is given. The loop below is their common \<open>for\<close> loop, with the domain as a parameter.
\<close>

fun addRolePolicies_loop ::
  "world \<Rightarrow> string \<Rightarrow> string \<Rightarrow> Permission list \<Rightarrow> world \<times> error option" where
  "addRolePolicies_loop w roleKey domain [] = (w, None)"
| "addRolePolicies_loop w roleKey domain (perm # rest) =
     (if \<not> IsValid perm then addRolePolicies_loop w roleKey domain rest
      else (case AddPolicy w roleKey domain perm of
              (w', Some err) \<Rightarrow> (w', Some err)
            | (w', None) \<Rightarrow> addRolePolicies_loop w' roleKey domain rest))"

definition setRolePermissions :: "world \<Rightarrow> string \<Rightarrow> Permission list \<Rightarrow> world \<times> error option" where
  "setRolePermissions w roleKey permissions =
     (case ClearPolicies w roleKey of
        (w1, Some err) \<Rightarrow> (w1, Some err)
      | (w1, None) \<Rightarrow>
          (case addRolePolicies_loop w1 roleKey ''*'' permissions of
             (w2, Some err) \<Rightarrow> (w2, Some err)
           | (w2, None) \<Rightarrow>
               if length permissions = 0
               then AddPolicy w2 roleKey ''*''
                      \<lparr> Resource = ResourcePlaceholder, Action = ActionNone \<rparr>
               else (w2, None)))"

definition setRolePermissionsInTenant ::
  "world \<Rightarrow> string \<Rightarrow> string \<Rightarrow> Permission list \<Rightarrow> world \<times> error option" where
  "setRolePermissionsInTenant w roleKey tenantKey permissions =
     (case ClearPolicies w roleKey of
        (w1, Some err) \<Rightarrow> (w1, Some err)
      | (w1, None) \<Rightarrow>
          (case addRolePolicies_loop w1 roleKey tenantKey permissions of
             (w2, Some err) \<Rightarrow> (w2, Some err)
           | (w2, None) \<Rightarrow>
               if length permissions = 0
               then AddPolicy w2 roleKey tenantKey
                      \<lparr> Resource = ResourcePlaceholder, Action = ActionNone \<rparr>
               else (w2, None)))"

definition roleManager_CreateRole ::
  "world \<Rightarrow> string \<Rightarrow> string \<Rightarrow> string \<Rightarrow> string \<Rightarrow> string \<Rightarrow> Permission list
     \<Rightarrow> world \<times> error option" where
  "roleManager_CreateRole w operatorKey roleKey roleName description tenantKey permissions =
     (if roleKey = '''' \<or> roleName = '''' then (w, Some ErrInvalidParameter)
      else if tenantKey = '''' then (w, Some (Errorf ''tenant key must not be empty'' None))
      else (case isRoleExists w roleKey of
              Inl err \<Rightarrow> (w, Some err)
            | Inr exists \<Rightarrow>
                if exists then (w, Some (Errorf ''role already exists'' None))
                else (case createRoleMetadata w roleKey roleName description tenantKey operatorKey of
                        (w1, Some err) \<Rightarrow>
                          (w1, Some (Errorf ''creating the role metadata failed'' (Some err)))
                      | (w1, None) \<Rightarrow>
                          if length permissions = 0 then
                            (case AddPolicy w1 roleKey tenantKey
                                    \<lparr> Resource = ResourcePlaceholder, Action = ActionNone \<rparr> of
                               (w2, Some err) \<Rightarrow> (fst (deleteRoleMetadata w2 roleKey), Some err)
                             | (w2, None) \<Rightarrow> (w2, None))
                          else
                            (case setRolePermissionsInTenant w1 roleKey tenantKey permissions of
                               (w2, Some err) \<Rightarrow> (fst (deleteRoleMetadata w2 roleKey), Some err)
                             | (w2, None) \<Rightarrow> (w2, None)))))"

definition roleManager_UpdateRole ::
  "SecurityValidator \<Rightarrow> world \<Rightarrow> string \<Rightarrow> string \<Rightarrow> string \<Rightarrow> string \<Rightarrow> string
     \<Rightarrow> Permission list \<Rightarrow> world \<times> error option" where
  "roleManager_UpdateRole sv w operatorKey roleKey roleName description tenantKey permissions =
     (if roleKey = '''' then (w, Some ErrInvalidParameter)
      else (case isRoleExists w roleKey of
              Inl err \<Rightarrow> (w, Some err)
            | Inr exists \<Rightarrow>
                if \<not> exists then (w, Some (Errorf ''role does not exist'' None))
                else if hasSystemPerms_ignoring_error sv w roleKey
                then (w, Some ErrSystemRoleImmutable)
                else if \<not> (roleName = '''' \<and> description = '''') then
                  (case updateRoleMetadata w roleKey roleName description of
                     (w1, Some err) \<Rightarrow>
                       (w1, Some (Errorf ''updating the role metadata failed'' (Some err)))
                   | (w1, None) \<Rightarrow> setRolePermissionsInTenant w1 roleKey tenantKey permissions)
                else setRolePermissionsInTenant w roleKey tenantKey permissions))"

definition roleManager_DeleteRole ::
  "SecurityValidator \<Rightarrow> world \<Rightarrow> string \<Rightarrow> world \<times> error option" where
  "roleManager_DeleteRole sv w roleKey =
     (if roleKey = '''' then (w, Some ErrInvalidParameter)
      else (case isRoleExists w roleKey of
              Inl err \<Rightarrow> (w, Some err)
            | Inr exists \<Rightarrow>
                if \<not> exists then (w, Some (Errorf ''role does not exist'' None))
                else if hasSystemPerms_ignoring_error sv w roleKey
                then (w, Some ErrSystemRoleImmutable)
                else (case ClearPolicies w roleKey of
                        (w1, Some err) \<Rightarrow> (w1, Some err)
                      | (w1, None) \<Rightarrow>
                          (case deleteRoleMetadata w1 roleKey of
                             (w2, Some err) \<Rightarrow>
                               (w2, Some (Errorf ''deleting the role metadata failed'' (Some err)))
                           | (w2, None) \<Rightarrow> (w2, None)))))"

definition roleManager_GrantPermission ::
  "SecurityValidator \<Rightarrow> world \<Rightarrow> string \<Rightarrow> string \<Rightarrow> Permission \<Rightarrow> world \<times> error option" where
  "roleManager_GrantPermission sv w operatorKey roleKey permission =
     (if roleKey = '''' \<or> Permission.Resource permission = '''' \<or> Permission.Action permission = ''''
      then (w, Some ErrInvalidParameter)
      else (case isRoleExistsInDB w roleKey of
              Inl err \<Rightarrow> (w, Some err)
            | Inr isRole \<Rightarrow>
                if \<not> isRole then (w, Some (Errorf ''not a valid role'' None))
                else if hasSystemPerms_ignoring_error sv w roleKey
                then (w, Some ErrSystemRoleImmutable)
                else (case GetRole w roleKey of
                        Inl err \<Rightarrow> (w, Some err)
                      | Inr role \<Rightarrow> AddPolicy w roleKey (TenantKey role) permission)))"

definition roleManager_RevokePermission ::
  "SecurityValidator \<Rightarrow> world \<Rightarrow> string \<Rightarrow> string \<Rightarrow> Permission \<Rightarrow> world \<times> error option" where
  "roleManager_RevokePermission sv w operatorKey roleKey permission =
     (if roleKey = '''' \<or> Permission.Resource permission = '''' \<or> Permission.Action permission = ''''
      then (w, Some ErrInvalidParameter)
      else (case isRoleExistsInDB w roleKey of
              Inl err \<Rightarrow> (w, Some err)
            | Inr isRole \<Rightarrow>
                if \<not> isRole then (w, Some (Errorf ''not a valid role'' None))
                else if hasSystemPerms_ignoring_error sv w roleKey
                then (w, Some ErrSystemRoleImmutable)
                else (case GetRole w roleKey of
                        Inl err \<Rightarrow> (w, Some err)
                      | Inr role \<Rightarrow> RemovePolicy w roleKey (TenantKey role) permission)))"

definition roleManager_SetRolePermissions ::
  "SecurityValidator \<Rightarrow> world \<Rightarrow> string \<Rightarrow> Permission list \<Rightarrow> world \<times> error option" where
  "roleManager_SetRolePermissions sv w roleKey permissions =
     (if roleKey = '''' then (w, Some ErrInvalidParameter)
      else (case isRoleExistsInDB w roleKey of
              Inl err \<Rightarrow> (w, Some err)
            | Inr isRole \<Rightarrow>
                if \<not> isRole then (w, Some (Errorf ''not a valid role'' None))
                else if hasSystemPerms_ignoring_error sv w roleKey
                then (w, Some ErrSystemRoleImmutable)
                else setRolePermissions w roleKey permissions))"

section \<open>The engine (engine/handler.go: casbinxClient)\<close>

text \<open>
  The client is built from a security configuration (\<open>newCasbinxClient\<close>): a
  configuration without system permissions is replaced by the default one; the
  validator gets the resulting configuration and, as its permission checker, the check
  manager, which reads the store at the time of the call. All managers share the one
  store, so an engine method is a function of the client's configuration \<open>c\<close> and the
  state.
\<close>

definition newCasbinxClient_securityConfig :: "SecurityConfig \<Rightarrow> SecurityConfig" where
  "newCasbinxClient_securityConfig security =
     (if length (SystemPermissions security) = 0 then DefaultSecurityConfig else security)"

definition validator :: "SecurityConfig \<Rightarrow> world \<Rightarrow> SecurityValidator" where
  "validator securityConfig w =
     SetPermissionChecker (NewSecurityValidator securityConfig)
       (checkManager_CheckPermission (casbin_of w))"

definition casbinxClient_GrantPermission ::
  "SecurityConfig \<Rightarrow> world \<Rightarrow> string \<Rightarrow> string \<Rightarrow> string \<Rightarrow> Permission \<Rightarrow> world \<times> error option" where
  "casbinxClient_GrantPermission c w operatorKey userKey tenantKey permission =
     (case ValidatePermissionGrant (validator c w) operatorKey userKey tenantKey permission of
        Some err \<Rightarrow> (w, Some err)
      | None \<Rightarrow> userManager_GrantPermission w operatorKey userKey tenantKey permission)"

definition casbinxClient_RevokePermission ::
  "SecurityConfig \<Rightarrow> world \<Rightarrow> string \<Rightarrow> string \<Rightarrow> string \<Rightarrow> Permission \<Rightarrow> world \<times> error option" where
  "casbinxClient_RevokePermission c w operatorKey userKey tenantKey permission =
     (case ValidatePermissionRevoke (validator c w) operatorKey userKey tenantKey permission of
        Some err \<Rightarrow> (w, Some err)
      | None \<Rightarrow> userManager_RevokePermission w operatorKey userKey tenantKey permission)"

text \<open>
  \<open>AssignRole\<close> and \<open>RemoveRole\<close> start with the same two operator checks, for
  \<open>{user, write}\<close> and then \<open>{role, write}\<close> in the tenant.
\<close>

definition operator_may_manage_roles :: "world \<Rightarrow> string \<Rightarrow> string \<Rightarrow> error option" where
  "operator_may_manage_roles w operatorKey tenantKey =
     (case checkManager_CheckPermission (casbin_of w) operatorKey tenantKey
             \<lparr> Resource = ResourceUser, Action = ActionWrite \<rparr> of
        Inl err \<Rightarrow> Some (Errorf ''error while checking the operator user management permission'' (Some err))
      | Inr hasUserPermission \<Rightarrow>
          if \<not> hasUserPermission
          then Some (Errorf ''operator lacks user management permission, cannot assign roles'' None)
          else (case checkManager_CheckPermission (casbin_of w) operatorKey tenantKey
                       \<lparr> Resource = ResourceRole, Action = ActionWrite \<rparr> of
                  Inl err \<Rightarrow> Some (Errorf ''error while checking the operator role management permission'' (Some err))
                | Inr hasRolePermission \<Rightarrow>
                    if \<not> hasRolePermission
                    then Some (Errorf ''operator lacks role management permission, cannot assign roles'' None)
                    else None))"

definition casbinxClient_AssignRole ::
  "SecurityConfig \<Rightarrow> world \<Rightarrow> string \<Rightarrow> string \<Rightarrow> string \<Rightarrow> string \<Rightarrow> world \<times> error option" where
  "casbinxClient_AssignRole c w operatorKey userKey roleKey tenantKey =
     (case operator_may_manage_roles w operatorKey tenantKey of
        Some err \<Rightarrow> (w, Some err)
      | None \<Rightarrow>
          (case HasSystemPermissions (validator c w) w roleKey of
             Inl err \<Rightarrow> (w, Some (Errorf ''error while checking the role system permissions'' (Some err)))
           | Inr hasSystemPerms \<Rightarrow>
               if hasSystemPerms then (w, Some ErrSystemRoleAssignmentDenied)
               else userManager_AssignRole w operatorKey userKey roleKey tenantKey))"

definition casbinxClient_RemoveRole ::
  "SecurityConfig \<Rightarrow> world \<Rightarrow> string \<Rightarrow> string \<Rightarrow> string \<Rightarrow> string \<Rightarrow> world \<times> error option" where
  "casbinxClient_RemoveRole c w operatorKey userKey roleKey tenantKey =
     (case operator_may_manage_roles w operatorKey tenantKey of
        Some err \<Rightarrow> (w, Some err)
      | None \<Rightarrow>
          (case UserRoleHasSystemPermissions (validator c w) w userKey roleKey tenantKey of
             Inl err \<Rightarrow> (w, Some (Errorf ''error while checking the user role system permissions'' (Some err)))
           | Inr hasSystemPerms \<Rightarrow>
               if hasSystemPerms then (w, Some ErrSystemRoleRemovalDenied)
               else userManager_RemoveRole w operatorKey userKey roleKey tenantKey))"

definition hasGlobalRoleAssignments :: "world \<Rightarrow> string \<Rightarrow> error + bool" where
  "hasGlobalRoleAssignments w roleKey =
     (case roleManager_GetUsersWithRole w roleKey ''*'' of
        Inl err \<Rightarrow> Inl err
      | Inr users \<Rightarrow> Inr (length users > 0))"

definition hasGlobalPermission :: "world \<Rightarrow> string \<Rightarrow> Permission \<Rightarrow> error + bool" where
  "hasGlobalPermission w operatorKey permission =
     checkManager_CheckPermission (casbin_of w) operatorKey ''*'' permission"

definition validateGlobalRoleOperation :: "world \<Rightarrow> string \<Rightarrow> string \<Rightarrow> error option" where
  "validateGlobalRoleOperation w operatorKey roleKey =
     (case hasGlobalRoleAssignments w roleKey of
        Inl err \<Rightarrow> Some (Errorf ''checking the role global assignments failed'' (Some err))
      | Inr hasGlobalAssignments \<Rightarrow>
          if \<not> hasGlobalAssignments then None
          else (case hasGlobalPermission w operatorKey
                       \<lparr> Resource = ResourceRole, Action = ActionWrite \<rparr> of
                  Inl err \<Rightarrow> Some (Errorf ''checking the global permission failed'' (Some err))
                | Inr hasGlobalPerm \<Rightarrow>
                    if \<not> hasGlobalPerm then Some ErrGlobalRoleAccessDenied
                    else None))"

fun permissionExists :: "Permission \<Rightarrow> Permission list \<Rightarrow> bool" where
  "permissionExists permission [] = False"
| "permissionExists permission (p # rest) =
     (if Permission.Resource p = Permission.Resource permission
         \<and> Permission.Action p = Permission.Action permission
      then True
      else permissionExists permission rest)"

fun findAddedPermissions :: "Permission list \<Rightarrow> Permission list \<Rightarrow> Permission list" where
  "findAddedPermissions oldPermissions [] = []"
| "findAddedPermissions oldPermissions (newPerm # rest) =
     (if \<not> permissionExists newPerm oldPermissions
      then newPerm # findAddedPermissions oldPermissions rest
      else findAddedPermissions oldPermissions rest)"

fun findRemovedPermissions_loop :: "Permission list \<Rightarrow> Permission list \<Rightarrow> Permission list" where
  "findRemovedPermissions_loop [] newPermissions = []"
| "findRemovedPermissions_loop (oldPerm # rest) newPermissions =
     (if \<not> permissionExists oldPerm newPermissions
      then oldPerm # findRemovedPermissions_loop rest newPermissions
      else findRemovedPermissions_loop rest newPermissions)"

definition findRemovedPermissions :: "Permission list \<Rightarrow> Permission list \<Rightarrow> Permission list" where
  "findRemovedPermissions oldPermissions newPermissions =
     findRemovedPermissions_loop oldPermissions newPermissions"

text \<open>
  The validation loops of \<open>CreateRole\<close>, \<open>UpdateRole\<close> and \<open>SetRolePermissions\<close>: each
  stops at the first permission the validator rejects and wraps its error.
\<close>

fun validateCreated_loop ::
  "SecurityValidator \<Rightarrow> string \<Rightarrow> string \<Rightarrow> string \<Rightarrow> Permission list \<Rightarrow> error option" where
  "validateCreated_loop sv operatorKey roleKey tenantKey [] = None"
| "validateCreated_loop sv operatorKey roleKey tenantKey (permission # rest) =
     (case ValidatePermissionGrantWithDomain sv operatorKey roleKey tenantKey permission of
        Some err \<Rightarrow> Some (Errorf ''validation of the role permission failed'' (Some err))
      | None \<Rightarrow> validateCreated_loop sv operatorKey roleKey tenantKey rest)"

fun validateAdded_loop ::
  "SecurityValidator \<Rightarrow> string \<Rightarrow> string \<Rightarrow> string \<Rightarrow> Permission list \<Rightarrow> error option" where
  "validateAdded_loop sv operatorKey roleKey tenantKey [] = None"
| "validateAdded_loop sv operatorKey roleKey tenantKey (permission # rest) =
     (case ValidatePermissionGrant sv operatorKey roleKey tenantKey permission of
        Some err \<Rightarrow> Some (Errorf ''validation of the added role permission failed'' (Some err))
      | None \<Rightarrow> validateAdded_loop sv operatorKey roleKey tenantKey rest)"

fun validateRemoved_loop ::
  "SecurityValidator \<Rightarrow> string \<Rightarrow> string \<Rightarrow> string \<Rightarrow> Permission list \<Rightarrow> error option" where
  "validateRemoved_loop sv operatorKey roleKey tenantKey [] = None"
| "validateRemoved_loop sv operatorKey roleKey tenantKey (permission # rest) =
     (case ValidatePermissionRevoke sv operatorKey roleKey tenantKey permission of
        Some err \<Rightarrow> Some (Errorf ''validation of the removed role permission failed'' (Some err))
      | None \<Rightarrow> validateRemoved_loop sv operatorKey roleKey tenantKey rest)"

definition casbinxClient_CreateRole ::
  "SecurityConfig \<Rightarrow> world \<Rightarrow> string \<Rightarrow> string \<Rightarrow> string \<Rightarrow> string \<Rightarrow> string \<Rightarrow> Permission list
     \<Rightarrow> world \<times> error option" where
  "casbinxClient_CreateRole c w operatorKey roleKey roleName description tenantKey permissions =
     (case validateCreated_loop (validator c w) operatorKey roleKey tenantKey permissions of
        Some err \<Rightarrow> (w, Some err)
      | None \<Rightarrow>
          roleManager_CreateRole w operatorKey roleKey roleName description tenantKey permissions)"

definition casbinxClient_UpdateRole ::
  "SecurityConfig \<Rightarrow> world \<Rightarrow> string \<Rightarrow> string \<Rightarrow> string \<Rightarrow> string \<Rightarrow> string \<Rightarrow> Permission list
     \<Rightarrow> world \<times> error option" where
  "casbinxClient_UpdateRole c w operatorKey roleKey roleName description tenantKey permissions =
     (case validateGlobalRoleOperation w operatorKey roleKey of
        Some err \<Rightarrow> (w, Some err)
      | None \<Rightarrow>
          (case GetRolePermissions w roleKey of
             Inl err \<Rightarrow> (w, Some (Errorf ''getting the role old permissions failed'' (Some err)))
           | Inr oldPermissions \<Rightarrow>
               (case validateAdded_loop (validator c w) operatorKey roleKey tenantKey
                       (findAddedPermissions oldPermissions permissions) of
                  Some err \<Rightarrow> (w, Some err)
                | None \<Rightarrow>
                    (case validateRemoved_loop (validator c w) operatorKey roleKey tenantKey
                            (findRemovedPermissions oldPermissions permissions) of
                       Some err \<Rightarrow> (w, Some err)
                     | None \<Rightarrow>
                         roleManager_UpdateRole (validator c w) w operatorKey roleKey roleName
                           description tenantKey permissions))))"

definition casbinxClient_DeleteRole :: "SecurityConfig \<Rightarrow> world \<Rightarrow> string \<Rightarrow> world \<times> error option" where
  "casbinxClient_DeleteRole c w roleKey = roleManager_DeleteRole (validator c w) w roleKey"

definition casbinxClient_GrantRolePermission ::
  "SecurityConfig \<Rightarrow> world \<Rightarrow> string \<Rightarrow> string \<Rightarrow> Permission \<Rightarrow> world \<times> error option" where
  "casbinxClient_GrantRolePermission c w operatorKey roleKey permission =
     (case validateGlobalRoleOperation w operatorKey roleKey of
        Some err \<Rightarrow> (w, Some err)
      | None \<Rightarrow>
          (case GetRole w roleKey of
             Inl err \<Rightarrow> (w, Some (Errorf ''getting the role failed'' (Some err)))
           | Inr role \<Rightarrow>
               (case ValidatePermissionGrant (validator c w) operatorKey roleKey (TenantKey role)
                       \<lparr> Resource = Permission.Resource permission,
                         Action = Permission.Action permission \<rparr> of
                  Some err \<Rightarrow> (w, Some err)
                | None \<Rightarrow>
                    roleManager_GrantPermission (validator c w) w operatorKey roleKey permission)))"

definition casbinxClient_RevokeRolePermission ::
  "SecurityConfig \<Rightarrow> world \<Rightarrow> string \<Rightarrow> string \<Rightarrow> Permission \<Rightarrow> world \<times> error option" where
  "casbinxClient_RevokeRolePermission c w operatorKey roleKey permission =
     (case validateGlobalRoleOperation w operatorKey roleKey of
        Some err \<Rightarrow> (w, Some err)
      | None \<Rightarrow>
          (case GetRole w roleKey of
             Inl err \<Rightarrow> (w, Some (Errorf ''getting the role failed'' (Some err)))
           | Inr role \<Rightarrow>
               (case ValidatePermissionRevoke (validator c w) operatorKey roleKey (TenantKey role)
                       \<lparr> Resource = Permission.Resource permission,
                         Action = Permission.Action permission \<rparr> of
                  Some err \<Rightarrow> (w, Some err)
                | None \<Rightarrow>
                    roleManager_RevokePermission (validator c w) w operatorKey roleKey permission)))"

definition casbinxClient_SetRolePermissions ::
  "SecurityConfig \<Rightarrow> world \<Rightarrow> string \<Rightarrow> string \<Rightarrow> Permission list \<Rightarrow> world \<times> error option" where
  "casbinxClient_SetRolePermissions c w operatorKey roleKey permissions =
     (case validateGlobalRoleOperation w operatorKey roleKey of
        Some err \<Rightarrow> (w, Some err)
      | None \<Rightarrow>
          (case GetRole w roleKey of
             Inl err \<Rightarrow> (w, Some (Errorf ''getting the role failed'' (Some err)))
           | Inr role \<Rightarrow>
               (case validateAdded_loop (validator c w) operatorKey roleKey (TenantKey role)
                       (findAddedPermissions (Permissions role) permissions) of
                  Some err \<Rightarrow> (w, Some err)
                | None \<Rightarrow>
                    (case validateRemoved_loop (validator c w) operatorKey roleKey (TenantKey role)
                            (findRemovedPermissions (Permissions role) permissions) of
                       Some err \<Rightarrow> (w, Some err)
                     | None \<Rightarrow>
                         roleManager_SetRolePermissions (validator c w) w roleKey permissions))))"

text \<open>
  \<open>InitializeTenant\<close>, the bootstrap path: the loop over the role's permissions sets two
  flags, one for a permission on a tenant-management resource and one for a permission
  on a system-baseline resource; the role is then assigned without the system-role check.
\<close>

definition casbinxClient_InitializeTenant ::
  "SecurityConfig \<Rightarrow> world \<Rightarrow> string \<Rightarrow> string \<Rightarrow> string \<Rightarrow> world \<times> error option" where
  "casbinxClient_InitializeTenant c w tenantKey adminUserKey adminRoleKey =
     (if tenantKey = '''' \<or> adminUserKey = '''' \<or> adminRoleKey = ''''
      then (w, Some ErrInvalidParameter)
      else (case GetRole w adminRoleKey of
              Inl err \<Rightarrow> (w, Some (Errorf ''the administrator role does not exist'' None))
            | Inr role \<Rightarrow>
                (let hasTenantPermissions =
                       list_ex (\<lambda>perm. Permission.Resource perm = ResourceTenant
                                        \<or> Permission.Resource perm = ResourceTagTenant)
                         (Permissions role);
                     hasSystemBasePermissions =
                       list_ex (\<lambda>perm. Permission.Resource perm = ResourceSystem
                                        \<or> Permission.Resource perm = ResourceUser
                                        \<or> Permission.Resource perm = ResourcePermission
                                        \<or> Permission.Resource perm = ResourceRole
                                        \<or> Permission.Resource perm = ResourceTagUser)
                         (Permissions role)
                 in if hasTenantPermissions
                    then (w, Some (Errorf ''the role holds tenant management permissions'' None))
                    else if \<not> hasSystemBasePermissions
                    then (w, Some (Errorf ''the role lacks system level permissions'' None))
                    else userManager_AssignRole w ''system'' adminUserKey adminRoleKey tenantKey)))"

section \<open>Vocabulary of the statements\<close>

text \<open>
  The four action strings \<open>ParseAction\<close> accepts; the permission a rule of at least four
  fields stands for; the permissions the store reports for a subject in a domain (the
  spec's \<open>PermissionsOf\<close>), as the resolver reads them: a failed lookup counts as no
  rule, and rules of fewer than four fields are ignored; and the test
  \<open>GetDirectPermissions\<close> applies to a rule.
\<close>

definition validAction :: "string \<Rightarrow> bool" where
  "validAction s \<longleftrightarrow> s = ''read'' \<or> s = ''write'' \<or> s = ''delete'' \<or> s = ''_none''"

definition toPermission :: "string list \<Rightarrow> Permission" where
  "toPermission policy = \<lparr> Resource = policy ! 2, Action = policy ! 3 \<rparr>"

definition PermissionsOf :: "casbin \<Rightarrow> string \<Rightarrow> string \<Rightarrow> Permission set" where
  "PermissionsOf e subject domain =
     toPermission ` {policy \<in> set (permissionsForUser_or_nothing e subject domain). 4 \<le> length policy}"

definition matches_subject_domain :: "string \<Rightarrow> string \<Rightarrow> string list \<Rightarrow> bool" where
  "matches_subject_domain subject domain policy \<longleftrightarrow>
     4 \<le> length policy \<and> policy ! 0 = subject \<and> policy ! 1 = domain"

text \<open>
  A store is well formed when the action of every permission rule is one of the four
  strings \<open>ParseAction\<close> accepts; \<open>GetPolicies\<close> fails on any other store.
\<close>

definition wf_store :: "world \<Rightarrow> bool" where
  "wf_store w \<longleftrightarrow> list_all (\<lambda>rule. validAction (snd (snd (snd rule)))) (p_rules w)"

text \<open>
  The permission of a permission rule; the rule as the \<open>Policy\<close> value \<open>GetPolicies\<close>
  builds from it; the rule that stores a permission for a role in a domain; the
  placeholder permission; and the permissions \<open>setRolePermissions\<close> writes for a given
  list: the placeholder when the list is empty, else the permissions of the list with
  both fields non-empty.
\<close>

definition p_permission :: "string \<times> string \<times> string \<times> string \<Rightarrow> Permission" where
  "p_permission rule = (case rule of (sub, dmn, obj, act) \<Rightarrow> \<lparr> Resource = obj, Action = act \<rparr>)"

definition p_policy :: "string \<times> string \<times> string \<times> string \<Rightarrow> Policy" where
  "p_policy rule =
     (case rule of (sub, dmn, obj, act) \<Rightarrow>
        \<lparr> Type = PolicyTypePermission, Subject = sub, Domain = dmn,
          Policy.Resource = obj, Policy.Action = act \<rparr>)"

definition role_rule :: "string \<Rightarrow> string \<Rightarrow> Permission \<Rightarrow> string \<times> string \<times> string \<times> string" where
  "role_rule roleKey domain p = (roleKey, domain, Permission.Resource p, Permission.Action p)"

definition placeholder :: Permission where
  "placeholder = \<lparr> Resource = ResourcePlaceholder, Action = ActionNone \<rparr>"

definition written_permissions :: "Permission list \<Rightarrow> Permission set" where
  "written_permissions permissions =
     (if permissions = [] then {placeholder} else {p \<in> set permissions. IsValid p})"

section \<open>Example states\<close>

text \<open>
  The state of a fresh installation, and four seeded states. In \<open>scenario_world\<close>,
  \<open>admin1\<close> may manage permissions in \<open>t1\<close>; \<open>user1\<close> holds a direct permission in \<open>t1\<close>
  and one in \<open>t2\<close>, the role \<open>editor\<close> in \<open>t1\<close> and the role \<open>viewer\<close> in the global
  domain.
\<close>

definition empty_world :: world where
  "empty_world = \<lparr> p_rules = [], g_rules = [], roles_tbl = (\<lambda>roleKey. None) \<rparr>"

definition scenario_world :: world where
  "scenario_world =
     \<lparr> p_rules = [ (''admin1'', ''t1'', ''permission'', ''write''),
                   (''user1'', ''t1'', ''document'', ''read''),
                   (''editor'', ''t1'', ''document'', ''write''),
                   (''viewer'', ''*'', ''report'', ''read''),
                   (''user1'', ''t2'', ''note'', ''read'') ],
       g_rules = [ (''user1'', ''editor'', ''t1''), (''user1'', ''viewer'', ''*'') ],
       roles_tbl = (\<lambda>roleKey. None)
         (''editor'' := Some \<lparr> roleMetadata.RoleKey = ''editor'', roleMetadata.Name = ''Editor'',
                               roleMetadata.Description = None, roleMetadata.TenantKey = ''t1'',
                               CreatedBy = None \<rparr>,
          ''viewer'' := Some \<lparr> roleMetadata.RoleKey = ''viewer'', roleMetadata.Name = ''Viewer'',
                               roleMetadata.Description = None, roleMetadata.TenantKey = ''*'',
                               CreatedBy = None \<rparr>) \<rparr>"

text \<open>
  In \<open>admin_world\<close>, \<open>admin1\<close> may manage users, roles and permissions in \<open>t1\<close>; the
  role \<open>editor\<close> belongs to \<open>t1\<close>; the role \<open>auditor\<close> is global, grants \<open>{user, read}\<close>
  and is held by \<open>user9\<close> in the global domain.
\<close>

definition admin_world :: world where
  "admin_world =
     \<lparr> p_rules = [ (''admin1'', ''t1'', ''user'', ''write''),
                   (''admin1'', ''t1'', ''role'', ''write''),
                   (''admin1'', ''t1'', ''permission'', ''write''),
                   (''editor'', ''t1'', ''document'', ''write''),
                   (''auditor'', ''*'', ''user'', ''read'') ],
       g_rules = [ (''user9'', ''auditor'', ''*'') ],
       roles_tbl = (\<lambda>roleKey. None)
         (''editor'' := Some \<lparr> roleMetadata.RoleKey = ''editor'', roleMetadata.Name = ''Editor'',
                               roleMetadata.Description = None, roleMetadata.TenantKey = ''t1'',
                               CreatedBy = None \<rparr>,
          ''auditor'' := Some \<lparr> roleMetadata.RoleKey = ''auditor'', roleMetadata.Name = ''Auditor'',
                               roleMetadata.Description = None, roleMetadata.TenantKey = ''*'',
                               CreatedBy = None \<rparr>) \<rparr>"

text \<open>
  In \<open>editor_world\<close>, the role \<open>editor\<close> is owned by tenant \<open>t1\<close>, has one rule in
  \<open>t1\<close> and one in \<open>t2\<close>, and is held by \<open>user5\<close> in \<open>t2\<close>.
\<close>

definition editor_world :: world where
  "editor_world =
     \<lparr> p_rules = [ (''admin1'', ''t1'', ''permission'', ''write''),
                   (''editor'', ''t1'', ''document'', ''write''),
                   (''editor'', ''t2'', ''note'', ''read'') ],
       g_rules = [ (''user5'', ''editor'', ''t2'') ],
       roles_tbl = (\<lambda>roleKey. None)
         (''editor'' := Some \<lparr> roleMetadata.RoleKey = ''editor'', roleMetadata.Name = ''Editor'',
                               roleMetadata.Description = None, roleMetadata.TenantKey = ''t1'',
                               CreatedBy = None \<rparr>) \<rparr>"

text \<open>
  In \<open>system_role_world\<close>, the role \<open>tenant_admin\<close> of tenant \<open>t1\<close> holds the system
  permission \<open>{user, write}\<close> and is held by \<open>user1\<close> in \<open>t1\<close>; \<open>op1\<close> may manage users
  and roles in \<open>t1\<close>.
\<close>

definition system_role_world :: world where
  "system_role_world =
     \<lparr> p_rules = [ (''tenant_admin'', ''t1'', ''user'', ''write''),
                   (''op1'', ''t1'', ''user'', ''write''),
                   (''op1'', ''t1'', ''role'', ''write'') ],
       g_rules = [ (''user1'', ''tenant_admin'', ''t1'') ],
       roles_tbl = (\<lambda>roleKey. None)
         (''tenant_admin'' := Some \<lparr> roleMetadata.RoleKey = ''tenant_admin'',
                                     roleMetadata.Name = ''Tenant administrator'',
                                     roleMetadata.Description = None,
                                     roleMetadata.TenantKey = ''t1'', CreatedBy = None \<rparr>) \<rparr>"

section \<open>Properties of the validator\<close>

lemma isSystemPermission_loop_iff:
  "isSystemPermission_loop ps p \<longleftrightarrow> p \<in> set ps"
  by (induction ps) auto

lemma isSystemPermission_iff:
  "isSystemPermission sv p \<longleftrightarrow> p \<in> set (SystemPermissions (config sv))"
  by (simp add: isSystemPermission_def isSystemPermission_loop_iff)

lemma isManagementPermission_system:
  "isSystemPermission sv p \<Longrightarrow> isManagementPermission sv p"
  by (simp add: isManagementPermission_def)

text \<open>
  C7 (as the code has it). The default configuration enables the self-elevation guard,
  and its system permissions are exactly these ten: read, write and delete on
  \<open>tenant\<close> and on \<open>system\<close>, write and delete on \<open>user\<close>, write and delete on
  \<open>permission\<close>. No permission on the \<open>role\<close> resource is among them.
\<close>

theorem DefaultSecurityConfig_contents:
  "PreventSelfElevation DefaultSecurityConfig
   \<and> set (SystemPermissions DefaultSecurityConfig) =
       { \<lparr>Resource = ''tenant'', Action = ''read''\<rparr>,
         \<lparr>Resource = ''tenant'', Action = ''write''\<rparr>,
         \<lparr>Resource = ''tenant'', Action = ''delete''\<rparr>,
         \<lparr>Resource = ''system'', Action = ''read''\<rparr>,
         \<lparr>Resource = ''system'', Action = ''write''\<rparr>,
         \<lparr>Resource = ''system'', Action = ''delete''\<rparr>,
         \<lparr>Resource = ''user'', Action = ''write''\<rparr>,
         \<lparr>Resource = ''user'', Action = ''delete''\<rparr>,
         \<lparr>Resource = ''permission'', Action = ''write''\<rparr>,
         \<lparr>Resource = ''permission'', Action = ''delete''\<rparr> }
   \<and> length (SystemPermissions DefaultSecurityConfig) = 10"
  by (auto simp add: DefaultSecurityConfig_def Action_defs Resource_defs)

text \<open>
  C7 as stated fails: the set the claim lists (with write and delete on \<open>role\<close>) is not
  the default set, because \<open>{role, write}\<close> and \<open>{role, delete}\<close> are not in it.
\<close>

theorem DefaultSecurityConfig_has_no_role_permission:
  "\<lparr>Resource = ''role'', Action = ''write''\<rparr> \<notin> set (SystemPermissions DefaultSecurityConfig)
   \<and> \<lparr>Resource = ''role'', Action = ''delete''\<rparr> \<notin> set (SystemPermissions DefaultSecurityConfig)
   \<and> set (SystemPermissions DefaultSecurityConfig) \<noteq>
       { \<lparr>Resource = ''tenant'', Action = ''read''\<rparr>,
         \<lparr>Resource = ''tenant'', Action = ''write''\<rparr>,
         \<lparr>Resource = ''tenant'', Action = ''delete''\<rparr>,
         \<lparr>Resource = ''system'', Action = ''read''\<rparr>,
         \<lparr>Resource = ''system'', Action = ''write''\<rparr>,
         \<lparr>Resource = ''system'', Action = ''delete''\<rparr>,
         \<lparr>Resource = ''user'', Action = ''write''\<rparr>,
         \<lparr>Resource = ''user'', Action = ''delete''\<rparr>,
         \<lparr>Resource = ''permission'', Action = ''write''\<rparr>,
         \<lparr>Resource = ''permission'', Action = ''delete''\<rparr>,
         \<lparr>Resource = ''role'', Action = ''write''\<rparr>,
         \<lparr>Resource = ''role'', Action = ''delete''\<rparr> }"
proof -
  let ?rw = "\<lparr>Resource = ''role'', Action = ''write''\<rparr>"
  let ?rd = "\<lparr>Resource = ''role'', Action = ''delete''\<rparr>"
  let ?claimed = "{ \<lparr>Resource = ''tenant'', Action = ''read''\<rparr>,
         \<lparr>Resource = ''tenant'', Action = ''write''\<rparr>,
         \<lparr>Resource = ''tenant'', Action = ''delete''\<rparr>,
         \<lparr>Resource = ''system'', Action = ''read''\<rparr>,
         \<lparr>Resource = ''system'', Action = ''write''\<rparr>,
         \<lparr>Resource = ''system'', Action = ''delete''\<rparr>,
         \<lparr>Resource = ''user'', Action = ''write''\<rparr>,
         \<lparr>Resource = ''user'', Action = ''delete''\<rparr>,
         \<lparr>Resource = ''permission'', Action = ''write''\<rparr>,
         \<lparr>Resource = ''permission'', Action = ''delete''\<rparr>,
         ?rw, ?rd }"
  have w: "?rw \<notin> set (SystemPermissions DefaultSecurityConfig)"
    by (simp add: DefaultSecurityConfig_def Action_defs Resource_defs)
  have d: "?rd \<notin> set (SystemPermissions DefaultSecurityConfig)"
    by (simp add: DefaultSecurityConfig_def Action_defs Resource_defs)
  have m: "?rw \<in> ?claimed"
    by simp
  have ne: "set (SystemPermissions DefaultSecurityConfig) \<noteq> ?claimed"
  proof
    assume "set (SystemPermissions DefaultSecurityConfig) = ?claimed"
    with m have "?rw \<in> set (SystemPermissions DefaultSecurityConfig)"
      by (simp only:)
    with w show False ..
  qed
  from w d ne show ?thesis
    by (intro conjI)
qed

text \<open>
  C1 (as the code has it). For a permission of the configured system set, grant and
  revoke validation always return an error, whoever the operator and the target are and
  whatever the domain. The error is \<open>SystemPermissionImmutable\<close>, except when the
  self-elevation guard is enabled and the operator is the target: that check runs first
  and the error is then \<open>SelfElevationPrevented\<close>.
\<close>

theorem system_permission_always_denied:
  "p \<in> set (SystemPermissions (config sv)) \<Longrightarrow>
     ValidatePermissionGrant sv operatorKey targetUserKey tenantKey p =
       Some (if PreventSelfElevation (config sv) \<and> operatorKey = targetUserKey
             then ErrSelfElevationPrevented else ErrSystemPermissionImmutable)
     \<and> ValidatePermissionRevoke sv operatorKey targetUserKey tenantKey p =
       Some (if PreventSelfElevation (config sv) \<and> operatorKey = targetUserKey
             then ErrSelfElevationPrevented else ErrSystemPermissionImmutable)"
  by (simp add: ValidatePermissionGrant_def ValidatePermissionRevoke_def
      PreventSelfElevation_sv_def isManagementPermission_def isSystemPermission_iff)

theorem system_permission_always_denied_witness:
  "\<lparr>Resource = ''tenant'', Action = ''delete''\<rparr> \<in> set (SystemPermissions DefaultSecurityConfig)
   \<and> ValidatePermissionGrant (NewSecurityValidator DefaultSecurityConfig)
        ''admin1'' ''user1'' ''t1'' \<lparr>Resource = ''tenant'', Action = ''delete''\<rparr>
      = Some ErrSystemPermissionImmutable
   \<and> ValidatePermissionRevoke (NewSecurityValidator DefaultSecurityConfig)
        ''admin1'' ''user1'' ''t1'' \<lparr>Resource = ''tenant'', Action = ''delete''\<rparr>
      = Some ErrSystemPermissionImmutable"
proof -
  have m: "\<lparr>Resource = ''tenant'', Action = ''delete''\<rparr>
             \<in> set (SystemPermissions (config (NewSecurityValidator DefaultSecurityConfig)))"
    by (simp add: NewSecurityValidator_def DefaultSecurityConfig_def Action_defs Resource_defs)
  from system_permission_always_denied [OF m, of "''admin1''" "''user1''" "''t1''"] m
  show ?thesis by (simp add: NewSecurityValidator_def)
qed

text \<open>
  C1 as stated fails: with the default configuration, an operator that names itself as
  the target of a grant (or revoke) of the system permission \<open>{tenant, write}\<close> gets
  \<open>SelfElevationPrevented\<close>, not \<open>SystemPermissionImmutable\<close>.
\<close>

theorem system_permission_self_grant_error:
  "\<lparr>Resource = ''tenant'', Action = ''write''\<rparr> \<in> set (SystemPermissions DefaultSecurityConfig)
   \<and> ValidatePermissionGrant (NewSecurityValidator DefaultSecurityConfig)
        ''user1'' ''user1'' ''t1'' \<lparr>Resource = ''tenant'', Action = ''write''\<rparr>
      = Some ErrSelfElevationPrevented
   \<and> ValidatePermissionGrant (NewSecurityValidator DefaultSecurityConfig)
        ''user1'' ''user1'' ''t1'' \<lparr>Resource = ''tenant'', Action = ''write''\<rparr>
      \<noteq> Some ErrSystemPermissionImmutable
   \<and> ValidatePermissionRevoke (NewSecurityValidator DefaultSecurityConfig)
        ''user1'' ''user1'' ''t1'' \<lparr>Resource = ''tenant'', Action = ''write''\<rparr>
      \<noteq> Some ErrSystemPermissionImmutable"
  by (simp add: ValidatePermissionGrant_def ValidatePermissionRevoke_def
      PreventSelfElevation_sv_def isManagementPermission_def isSystemPermission_def
      NewSecurityValidator_def DefaultSecurityConfig_def Action_defs Resource_defs)

text \<open>
  C2. With \<open>PreventSelfElevation\<close> enabled and the operator equal to the target, grant
  and revoke validation of a permission that is in the system set, or that is write or
  delete on \<open>permission\<close>, \<open>user\<close> or \<open>role\<close>, fail with \<open>SelfElevationPrevented\<close>.
  With \<open>PreventSelfElevation\<close> disabled the self-elevation check lets the same call
  through: the result is that of the remaining two checks alone (which may still deny
  it), and it is never \<open>SelfElevationPrevented\<close>.
\<close>

theorem self_elevation_rule:
  "(PreventSelfElevation (config sv)
      \<and> (p \<in> set (SystemPermissions (config sv))
          \<or> (Permission.Resource p \<in> {''permission'', ''user'', ''role''}
              \<and> Permission.Action p \<in> {''write'', ''delete''}))
     \<longrightarrow> ValidatePermissionGrant sv u u tenantKey p = Some ErrSelfElevationPrevented
         \<and> ValidatePermissionRevoke sv u u tenantKey p = Some ErrSelfElevationPrevented)
   \<and> (\<not> PreventSelfElevation (config sv)
     \<longrightarrow> PreventSelfElevation_sv sv u u p = None
         \<and> ValidatePermissionGrant sv u u tenantKey p =
             (if isSystemPermission sv p then Some ErrSystemPermissionImmutable
              else validateOperatorPermission sv u tenantKey p)
         \<and> ValidatePermissionRevoke sv u u tenantKey p =
             (if isSystemPermission sv p then Some ErrSystemPermissionImmutable
              else validateOperatorPermission sv u tenantKey p)
         \<and> ValidatePermissionGrant sv u u tenantKey p \<noteq> Some ErrSelfElevationPrevented
         \<and> ValidatePermissionRevoke sv u u tenantKey p \<noteq> Some ErrSelfElevationPrevented)"
proof (intro conjI impI)
  assume on: "PreventSelfElevation (config sv)
      \<and> (p \<in> set (SystemPermissions (config sv))
          \<or> (Permission.Resource p \<in> {''permission'', ''user'', ''role''}
              \<and> Permission.Action p \<in> {''write'', ''delete''}))"
  then have "isManagementPermission sv p"
    by (auto simp add: isManagementPermission_def isSystemPermission_iff Action_defs Resource_defs)
  with on have blocked: "PreventSelfElevation_sv sv u u p = Some ErrSelfElevationPrevented"
    by (simp add: PreventSelfElevation_sv_def)
  show "ValidatePermissionGrant sv u u tenantKey p = Some ErrSelfElevationPrevented"
    by (simp add: ValidatePermissionGrant_def blocked)
  show "ValidatePermissionRevoke sv u u tenantKey p = Some ErrSelfElevationPrevented"
    by (simp add: ValidatePermissionRevoke_def blocked)
next
  assume off: "\<not> PreventSelfElevation (config sv)"
  then show free: "PreventSelfElevation_sv sv u u p = None"
    by (simp add: PreventSelfElevation_sv_def)
  have op_err: "validateOperatorPermission sv u tenantKey p \<noteq> Some ErrSelfElevationPrevented"
    by (simp add: validateOperatorPermission_def
        split: option.splits PermissionType.splits sum.splits)
  show g: "ValidatePermissionGrant sv u u tenantKey p =
             (if isSystemPermission sv p then Some ErrSystemPermissionImmutable
              else validateOperatorPermission sv u tenantKey p)"
    by (simp add: ValidatePermissionGrant_def free split: option.splits)
  show r: "ValidatePermissionRevoke sv u u tenantKey p =
             (if isSystemPermission sv p then Some ErrSystemPermissionImmutable
              else validateOperatorPermission sv u tenantKey p)"
    by (simp add: ValidatePermissionRevoke_def free split: option.splits)
  show "ValidatePermissionGrant sv u u tenantKey p \<noteq> Some ErrSelfElevationPrevented"
    using op_err by (simp add: g)
  show "ValidatePermissionRevoke sv u u tenantKey p \<noteq> Some ErrSelfElevationPrevented"
    using op_err by (simp add: r)
qed

theorem self_elevation_rule_witness:
  "ValidatePermissionGrant (NewSecurityValidator DefaultSecurityConfig)
      ''user1'' ''user1'' ''t1'' \<lparr>Resource = ''permission'', Action = ''write''\<rparr>
     = Some ErrSelfElevationPrevented
   \<and> ValidatePermissionRevoke (NewSecurityValidator DefaultSecurityConfig)
      ''user1'' ''user1'' ''t1'' \<lparr>Resource = ''permission'', Action = ''write''\<rparr>
     = Some ErrSelfElevationPrevented
   \<and> ValidatePermissionGrant
      (NewSecurityValidator (DefaultSecurityConfig \<lparr>PreventSelfElevation := False\<rparr>))
      ''user1'' ''user1'' ''t1'' \<lparr>Resource = ''role'', Action = ''write''\<rparr>
     = None
   \<and> ValidatePermissionGrant
      (NewSecurityValidator (DefaultSecurityConfig \<lparr>PreventSelfElevation := False\<rparr>))
      ''user1'' ''user1'' ''t1'' \<lparr>Resource = ''permission'', Action = ''write''\<rparr>
     = Some ErrSystemPermissionImmutable"
  using
    self_elevation_rule [of "NewSecurityValidator DefaultSecurityConfig"
      "\<lparr>Resource = ''permission'', Action = ''write''\<rparr>" "''user1''" "''t1''"]
    self_elevation_rule [of
      "NewSecurityValidator (DefaultSecurityConfig \<lparr>PreventSelfElevation := False\<rparr>)"
      "\<lparr>Resource = ''role'', Action = ''write''\<rparr>" "''user1''" "''t1''"]
    self_elevation_rule [of
      "NewSecurityValidator (DefaultSecurityConfig \<lparr>PreventSelfElevation := False\<rparr>)"
      "\<lparr>Resource = ''permission'', Action = ''write''\<rparr>" "''user1''" "''t1''"]
  by (simp add: NewSecurityValidator_def DefaultSecurityConfig_def isSystemPermission_def
      validateOperatorPermission_def Action_defs Resource_defs)

text \<open>
  C10. \<open>isTenantInitializationScenario\<close> does not always return a boolean: for the role
  key \<open>admin\<close>, a tenant key that is neither empty nor \<open>*\<close>, and a user key of 6, 7 or 8
  bytes that neither starts with \<open>admin\<close> nor ends with \<open>-admin\<close>, the third slice
  \<open>userKey[len(userKey)-9 : len(userKey)-4]\<close> is reached with a negative start index and
  the function panics.
\<close>

theorem isTenantInitializationScenario_panics:
  assumes "roleKey = ''admin''"
    and "tenantKey \<noteq> []" and "tenantKey \<noteq> ''*''"
    and "length userKey \<in> {6, 7, 8}"
    and "take 5 userKey \<noteq> ''admin''"
    and "drop (length userKey - 6) userKey \<noteq> ''-admin''"
  shows "isTenantInitializationScenario userKey roleKey tenantKey = Inl SliceBoundsOutOfRange
         \<and> int (length userKey) - 9 < 0"
proof -
  let ?n = "int (length userKey)"
  from assms(4) have n: "5 < ?n" "?n < 9" by auto
  have a: "slice userKey 0 5 = Inr (take 5 userKey)"
    using n by (simp add: slice_def)
  have "nat (?n - (?n - 6)) = 6" by simp
  moreover have "nat (?n - 6) = length userKey - 6" by simp
  ultimately have b: "slice userKey (?n - 6) ?n = Inr (drop (length userKey - 6) userKey)"
    using n by (simp add: slice_def)
  have c: "slice userKey (?n - 9) (?n - 4) = Inl SliceBoundsOutOfRange"
    using n by (simp add: slice_def)
  show ?thesis
    using assms(1,2,3,5,6) n a b c
    by (simp add: isTenantInitializationScenario_def Let_def)
qed

theorem isTenantInitializationScenario_panics_witness:
  "isTenantInitializationScenario ''user01'' ''admin'' ''t1'' = Inl SliceBoundsOutOfRange
   \<and> isTenantInitializationScenario ''user-01'' ''admin'' ''t1'' = Inl SliceBoundsOutOfRange
   \<and> isTenantInitializationScenario ''user-001'' ''admin'' ''t1'' = Inl SliceBoundsOutOfRange"
  using isTenantInitializationScenario_panics [of "''admin''" "''t1''" "''user01''"]
    isTenantInitializationScenario_panics [of "''admin''" "''t1''" "''user-01''"]
    isTenantInitializationScenario_panics [of "''admin''" "''t1''" "''user-001''"]
  by simp

section \<open>Properties of the enforcer queries\<close>

lemmas store_defs = casbin_of_def casbin_AddPolicy_def casbin_RemovePolicy_def
  casbin_AddRoleForUserInDomain_def casbin_DeleteRoleForUserInDomain_def
  p_fields_def g_fields_def p_matches_def g_matches_def g_role_def
  sql_count_role_def sql_insert_role_def sql_update_role_def sql_delete_role_def
  sql_select_role_def empty_world_def

lemmas enforcer_defs = GetPolicies_def GetAllPolicies_def GetGroupingPolicies_def
  GetRolesForUser_def permissionsForUser_or_nothing_def GetImplicitPermissions_def
  CheckPermission_def GetDirectPermissions_def IsRoleAssigned_def HasDirectPermission_def
  IsRoleInUse_def GetUsersWithRole_def AddPolicy_def RemovePolicy_def ClearPolicies_def
  AddGroupingPolicy_def RemoveGroupingPolicy_def ParseAction_def

lemmas manager_defs = checkManager_CheckPermission_def coreResources_def CanAccessTenant_def
  isRoleExistsInDB_def validateParams_def validateNotRole_def validateRoleExists_def
  userManager_GrantPermission_def userManager_RevokePermission_def
  userManager_GetDirectPermissions_def userManager_GetEffectivePermissions_def
  userManager_AssignRole_def userManager_RemoveRole_def
  createRoleMetadata_def updateRoleMetadata_def deleteRoleMetadata_def getRoleMetadata_def
  isRoleExists_def roleManager_isSystemPermission_def GetRolePermissions_def
  HasSystemPermissions_def hasSystemPerms_ignoring_error_def UserRoleHasSystemPermissions_def
  GetRole_def roleManager_GetUsersWithRole_def setRolePermissions_def
  setRolePermissionsInTenant_def roleManager_CreateRole_def roleManager_UpdateRole_def
  roleManager_DeleteRole_def roleManager_GrantPermission_def roleManager_RevokePermission_def
  roleManager_SetRolePermissions_def

lemmas validator_defs = NewSecurityValidator_def SetPermissionChecker_def isSystemPermission_def
  GetPermissionType_def isManagementPermission_def PreventSelfElevation_sv_def
  validateOperatorPermission_def ValidatePermissionGrant_def ValidatePermissionGrantWithDomain_def
  ValidatePermissionRevoke_def DefaultSecurityConfig_def IsValid_def AllActions_def

lemmas engine_defs = validator_def casbinxClient_GrantPermission_def
  casbinxClient_RevokePermission_def operator_may_manage_roles_def casbinxClient_AssignRole_def
  casbinxClient_RemoveRole_def hasGlobalRoleAssignments_def hasGlobalPermission_def
  validateGlobalRoleOperation_def findRemovedPermissions_def casbinxClient_CreateRole_def
  casbinxClient_UpdateRole_def casbinxClient_DeleteRole_def casbinxClient_GrantRolePermission_def
  casbinxClient_RevokeRolePermission_def casbinxClient_SetRolePermissions_def

lemmas model_defs = store_defs enforcer_defs manager_defs validator_defs engine_defs
  Action_defs Resource_defs

lemma ParseAction_Inr: "ParseAction s = Inr a \<longleftrightarrow> validAction s \<and> a = s"
  by (auto simp add: ParseAction_def validAction_def Action_defs)

lemma ParseAction_valid: "validAction s \<Longrightarrow> ParseAction s = Inr s"
  by (simp add: ParseAction_Inr)

lemma ParseAction_invalid: "\<not> validAction s \<Longrightarrow> ParseAction s = Inl (Errorf (''invalid action: '' @ s) None)"
  by (simp add: ParseAction_def validAction_def)
lemma GetDirectPermissions_loop_valid:
  "list_all (\<lambda>policy. validAction (policy ! 3)) (filter (matches_subject_domain u d) allPolicies) \<Longrightarrow>
     GetDirectPermissions_loop u d allPolicies =
       Inr (map toPermission (filter (matches_subject_domain u d) allPolicies))"
  by (induction allPolicies)
     (auto simp add: matches_subject_domain_def toPermission_def ParseAction_valid)

lemma GetDirectPermissions_loop_invalid:
  "\<not> list_all (\<lambda>policy. validAction (policy ! 3)) (filter (matches_subject_domain u d) allPolicies) \<Longrightarrow>
     isl (GetDirectPermissions_loop u d allPolicies)"
proof (induction allPolicies)
  case Nil
  then show ?case by simp
next
  case (Cons policy rest)
  show ?case
  proof (cases "matches_subject_domain u d policy")
    case False
    with Cons show ?thesis
      by (auto simp add: matches_subject_domain_def)
  next
    case True
    show ?thesis
    proof (cases "validAction (policy ! 3)")
      case False
      with True show ?thesis
        by (simp add: matches_subject_domain_def ParseAction_invalid)
    next
      case valid: True
      with True Cons have "isl (GetDirectPermissions_loop u d rest)"
        by simp
      with True valid show ?thesis
        by (auto simp add: matches_subject_domain_def ParseAction_valid split: sum.splits)
    qed
  qed
qed

text \<open>
  C8 (as the code has it). For every subject and domain, \<open>GetDirectPermissions\<close> returns
  exactly the permissions of the rules (of at least four fields) whose subject is the
  subject and whose domain is the domain, in the order of the store, provided the
  actions of these rules parse; otherwise it returns an error. No rule is left out: a
  placeholder rule of that subject and domain is returned like any other.
\<close>

theorem GetDirectPermissions_exact:
  assumes "GetPolicy e = Inr allPolicies"
  shows "(if list_all (\<lambda>policy. validAction (policy ! 3))
               (filter (matches_subject_domain u d) allPolicies)
          then GetDirectPermissions e u d =
                 Inr (map toPermission (filter (matches_subject_domain u d) allPolicies))
          else isl (GetDirectPermissions e u d))"
  using assms
  by (simp add: GetDirectPermissions_def GetDirectPermissions_loop_valid
      GetDirectPermissions_loop_invalid)

theorem GetDirectPermissions_exact_witness:
  "GetDirectPermissions (casbin_of scenario_world) ''user1'' ''t1''
     = Inr [\<lparr>Resource = ''document'', Action = ''read''\<rparr>]"
  using GetDirectPermissions_exact [of "casbin_of scenario_world"
      "map p_fields (p_rules scenario_world)" "''user1''" "''t1''"]
  by (simp add: scenario_world_def casbin_of_def p_fields_def matches_subject_domain_def
      validAction_def toPermission_def)

text \<open>
  C8 as stated fails: a role created through the engine with an empty permission list
  gets the placeholder rule in its tenant, and \<open>GetDirectPermissions\<close> for that subject
  and domain returns the placeholder permission.
\<close>

theorem GetDirectPermissions_returns_placeholder:
  "casbinxClient_CreateRole DefaultSecurityConfig empty_world
       ''admin1'' ''editor'' ''Editor'' ''edits documents'' ''t1'' []
     = (\<lparr> p_rules = [(''editor'', ''t1'', ''_placeholder'', ''_none'')], g_rules = [],
          roles_tbl = (\<lambda>roleKey. None)(''editor'' := Some \<lparr> roleMetadata.RoleKey = ''editor'', roleMetadata.Name = ''Editor'',
                                    roleMetadata.Description = Some ''edits documents'',
                                    roleMetadata.TenantKey = ''t1'',
                                    CreatedBy = Some ''admin1'' \<rparr>) \<rparr>, None)
   \<and> GetDirectPermissions
       (casbin_of (fst (casbinxClient_CreateRole DefaultSecurityConfig empty_world
          ''admin1'' ''editor'' ''Editor'' ''edits documents'' ''t1'' [])))
       ''editor'' ''t1''
     = Inr [\<lparr>Resource = ''_placeholder'', Action = ''_none''\<rparr>]"
  by (simp add: model_defs)

lemma toPermissions_loop_Inr:
  "toPermissions_loop ps = Inr perms \<Longrightarrow>
     perms = map toPermission (filter (\<lambda>policy. 4 \<le> length policy) ps)"
  by (induction ps arbitrary: perms)
     (auto simp add: toPermission_def ParseAction_Inr split: if_splits sum.splits)

lemma toPermissions_loop_total:
  "list_all (\<lambda>policy. validAction (policy ! 3)) (filter (\<lambda>policy. 4 \<le> length policy) ps) \<Longrightarrow>
     toPermissions_loop ps = Inr (map toPermission (filter (\<lambda>policy. 4 \<le> length policy) ps))"
  by (induction ps) (auto simp add: toPermission_def ParseAction_valid)

lemma set_uniqueRoles_loop: "set (uniqueRoles_loop seen rs) = set rs - set seen"
  by (induction seen rs rule: uniqueRoles_loop.induct) auto

lemma GetImplicitPermissions_set:
  assumes "GetImplicitPermissions e u d = Inr ps"
  shows "set ps =
           PermissionsOf e u d
           \<union> (\<Union>r \<in> set (GetRolesForUserInDomain e u d)
                    \<union> (if d \<noteq> ''*'' then set (GetRolesForUserInDomain e u ''*'') else {}).
                PermissionsOf e r ''*'' \<union> (if d \<noteq> ''*'' then PermissionsOf e r d else {}))"
  using toPermissions_loop_Inr [OF assms [unfolded GetImplicitPermissions_def Let_def]]
  by (auto simp add: PermissionsOf_def set_uniqueRoles_loop)

text \<open>
  C3. Whenever \<open>GetImplicitPermissions\<close> returns a permission list for a subject and a
  domain, the set of that list is the union of the subject's own permissions in the
  domain and, for every role the subject holds in the domain or (when the domain is not
  \<open>*\<close>) in the global domain \<open>*\<close>, that role's permissions in \<open>*\<close> and (when the domain
  is not \<open>*\<close>) in the domain. In particular it contains the subject's own permissions
  in the domain, and the permissions in the domain and in \<open>*\<close> of every role held in the
  domain or in \<open>*\<close>.
\<close>

theorem GetImplicitPermissions_union:
  assumes "GetImplicitPermissions e u d = Inr ps"
  shows "set ps =
           PermissionsOf e u d
           \<union> (\<Union>r \<in> set (GetRolesForUserInDomain e u d)
                    \<union> (if d \<noteq> ''*'' then set (GetRolesForUserInDomain e u ''*'') else {}).
                PermissionsOf e r ''*'' \<union> (if d \<noteq> ''*'' then PermissionsOf e r d else {}))
         \<and> PermissionsOf e u d \<subseteq> set ps
         \<and> (\<forall>r \<in> set (GetRolesForUserInDomain e u d) \<union> set (GetRolesForUserInDomain e u ''*'').
               PermissionsOf e r d \<union> PermissionsOf e r ''*'' \<subseteq> set ps)"
proof -
  let ?roles = "set (GetRolesForUserInDomain e u d)
                    \<union> (if d \<noteq> ''*'' then set (GetRolesForUserInDomain e u ''*'') else {})"
  have eq: "set ps =
           PermissionsOf e u d
           \<union> (\<Union>r \<in> ?roles.
                PermissionsOf e r ''*'' \<union> (if d \<noteq> ''*'' then PermissionsOf e r d else {}))"
    using toPermissions_loop_Inr [OF assms [unfolded GetImplicitPermissions_def Let_def]]
    by (auto simp add: PermissionsOf_def set_uniqueRoles_loop)
  show ?thesis
  proof (intro conjI ballI)
    show "set ps =
           PermissionsOf e u d
           \<union> (\<Union>r \<in> ?roles.
                PermissionsOf e r ''*'' \<union> (if d \<noteq> ''*'' then PermissionsOf e r d else {}))"
      by (rule eq)
    show "PermissionsOf e u d \<subseteq> set ps"
      using eq by blast
    fix r
    assume "r \<in> set (GetRolesForUserInDomain e u d) \<union> set (GetRolesForUserInDomain e u ''*'')"
    then show "PermissionsOf e r d \<union> PermissionsOf e r ''*'' \<subseteq> set ps"
      using eq by (cases "d = ''*''") auto
  qed
qed

lemma scenario_effective:
  "GetImplicitPermissions (casbin_of scenario_world) ''user1'' ''t1''
     = Inr [ \<lparr>Resource = ''document'', Action = ''read''\<rparr>,
             \<lparr>Resource = ''document'', Action = ''write''\<rparr>,
             \<lparr>Resource = ''report'', Action = ''read''\<rparr> ]"
  by (simp add: scenario_world_def model_defs)

theorem GetImplicitPermissions_union_witness:
  "GetImplicitPermissions (casbin_of scenario_world) ''user1'' ''t1''
     = Inr [ \<lparr>Resource = ''document'', Action = ''read''\<rparr>,
             \<lparr>Resource = ''document'', Action = ''write''\<rparr>,
             \<lparr>Resource = ''report'', Action = ''read''\<rparr> ]
   \<and> PermissionsOf (casbin_of scenario_world) ''user1'' ''t1''
        = {\<lparr>Resource = ''document'', Action = ''read''\<rparr>}
   \<and> ''editor'' \<in> set (GetRolesForUserInDomain (casbin_of scenario_world) ''user1'' ''t1'')
   \<and> ''viewer'' \<in> set (GetRolesForUserInDomain (casbin_of scenario_world) ''user1'' ''*'')
   \<and> PermissionsOf (casbin_of scenario_world) ''editor'' ''t1''
        \<union> PermissionsOf (casbin_of scenario_world) ''editor'' ''*''
        \<subseteq> { \<lparr>Resource = ''document'', Action = ''read''\<rparr>,
             \<lparr>Resource = ''document'', Action = ''write''\<rparr>,
             \<lparr>Resource = ''report'', Action = ''read''\<rparr> }
   \<and> PermissionsOf (casbin_of scenario_world) ''viewer'' ''t1''
        \<union> PermissionsOf (casbin_of scenario_world) ''viewer'' ''*''
        \<subseteq> { \<lparr>Resource = ''document'', Action = ''read''\<rparr>,
             \<lparr>Resource = ''document'', Action = ''write''\<rparr>,
             \<lparr>Resource = ''report'', Action = ''read''\<rparr> }"
proof -
  have roles: "''editor'' \<in> set (GetRolesForUserInDomain (casbin_of scenario_world) ''user1'' ''t1'')"
    "''viewer'' \<in> set (GetRolesForUserInDomain (casbin_of scenario_world) ''user1'' ''*'')"
    by (simp_all add: scenario_world_def store_defs)
  have direct: "PermissionsOf (casbin_of scenario_world) ''user1'' ''t1''
        = {\<lparr>Resource = ''document'', Action = ''read''\<rparr>}"
    by (auto simp add: PermissionsOf_def permissionsForUser_or_nothing_def scenario_world_def
        store_defs toPermission_def)
  note u = GetImplicitPermissions_union [OF scenario_effective]
  from u roles have
    "PermissionsOf (casbin_of scenario_world) ''editor'' ''t1''
        \<union> PermissionsOf (casbin_of scenario_world) ''editor'' ''*''
        \<subseteq> set [ \<lparr>Resource = ''document'', Action = ''read''\<rparr>,
             \<lparr>Resource = ''document'', Action = ''write''\<rparr>,
             \<lparr>Resource = ''report'', Action = ''read''\<rparr> ]"
    "PermissionsOf (casbin_of scenario_world) ''viewer'' ''t1''
        \<union> PermissionsOf (casbin_of scenario_world) ''viewer'' ''*''
        \<subseteq> set [ \<lparr>Resource = ''document'', Action = ''read''\<rparr>,
             \<lparr>Resource = ''document'', Action = ''write''\<rparr>,
             \<lparr>Resource = ''report'', Action = ''read''\<rparr> ]"
    by blast+
  with scenario_effective direct roles show ?thesis
    by simp
qed

section \<open>Properties of the tenant check\<close>

text \<open>
  When every rule gathered for the subject has an action that parses, the query for the
  effective permissions returns a list.
\<close>

lemma GetImplicitPermissions_total:
  assumes "\<And>s dm policy. policy \<in> set (permissionsForUser_or_nothing e s dm) \<Longrightarrow>
             4 \<le> length policy \<Longrightarrow> validAction (policy ! 3)"
  shows "\<exists>ps. GetImplicitPermissions e u d = Inr ps"
  unfolding GetImplicitPermissions_def Let_def
  by (rule exI, rule toPermissions_loop_total) (auto simp add: list_all_iff assms)

lemma permissionsForUser_world:
  "permissionsForUser_or_nothing (casbin_of w) s d =
     map p_fields (filter (p_matches s d) (p_rules w))"
  by (simp add: permissionsForUser_or_nothing_def casbin_of_def)

lemma roles_world:
  "GetRolesForUserInDomain (casbin_of w) u d = map g_role (filter (g_matches u d) (g_rules w))"
  by (simp add: casbin_of_def)

lemma set_roles_world:
  "set (GetRolesForUserInDomain (casbin_of w) u d) = {r. (u, r, d) \<in> set (g_rules w)}"
  by (auto simp add: roles_world g_role_def g_matches_def image_iff)

lemma length_p_fields: "length (p_fields rule) = 4"
  by (simp add: p_fields_def split: prod.splits)

lemma toPermission_p_fields: "toPermission (p_fields rule) = p_permission rule"
  by (simp add: p_fields_def toPermission_def p_permission_def split: prod.splits)

lemma PermissionsOf_world:
  "PermissionsOf (casbin_of w) s d = p_permission ` {rule \<in> set (p_rules w). p_matches s d rule}"
proof -
  have "{policy \<in> set (map p_fields (filter (p_matches s d) (p_rules w))). 4 \<le> length policy}
          = p_fields ` {rule \<in> set (p_rules w). p_matches s d rule}"
    by (auto simp add: length_p_fields)
  then show ?thesis
    by (simp add: PermissionsOf_def permissionsForUser_world image_image toPermission_p_fields)
qed

lemma GetImplicitPermissions_world_total:
  assumes "wf_store w"
  shows "\<exists>ps. GetImplicitPermissions (casbin_of w) u d = Inr ps"
proof (rule GetImplicitPermissions_total)
  fix s dm policy
  assume "policy \<in> set (permissionsForUser_or_nothing (casbin_of w) s dm)"
  then obtain rule where "rule \<in> set (p_rules w)" "policy = p_fields rule"
    by (auto simp add: permissionsForUser_world)
  with assms show "validAction (policy ! 3)"
    by (auto simp add: wf_store_def list_all_iff p_fields_def split: prod.splits)
qed

lemma CheckPermission_loop_iff: "CheckPermission_loop ps p \<longleftrightarrow> p \<in> set ps"
  by (induction ps) auto

lemma CheckPermission_Inr:
  "GetImplicitPermissions e u d = Inr ps \<Longrightarrow> checkManager_CheckPermission e u d p = Inr (p \<in> set ps)"
  by (simp add: checkManager_CheckPermission_def CheckPermission_def CheckPermission_loop_iff)

lemma CanAccessTenant_actions_Inr:
  assumes "GetImplicitPermissions e u t = Inr pt"
  shows "CanAccessTenant_actions e u t res acts =
           Inr (list_ex (\<lambda>a. \<lparr>Resource = res, Action = a\<rparr> \<in> set pt) acts)"
  by (induction acts) (simp_all add: CheckPermission_Inr [OF assms])

lemma CanAccessTenant_resources_Inr:
  assumes "GetImplicitPermissions e u t = Inr pt"
  shows "CanAccessTenant_resources e u t rs =
           Inr (list_ex (\<lambda>res. list_ex (\<lambda>a. \<lparr>Resource = res, Action = a\<rparr> \<in> set pt) AllActions) rs)"
  by (induction rs) (simp_all add: CanAccessTenant_actions_Inr [OF assms])

lemma CanAccessTenant_Inr:
  assumes "GetImplicitPermissions e u ''*'' = Inr pg" and "GetImplicitPermissions e u t = Inr pt"
  shows "CanAccessTenant e u t =
           Inr (\<lparr>Resource = ''tenant'', Action = ''read''\<rparr> \<in> set pg
                \<or> GetRolesForUserInDomain e u t \<noteq> []
                \<or> list_ex (\<lambda>res. list_ex (\<lambda>a. \<lparr>Resource = res, Action = a\<rparr> \<in> set pt) AllActions)
                     coreResources)"
  by (simp add: CanAccessTenant_def CheckPermission_Inr [OF assms(1)] GetRolesForUser_def
      CanAccessTenant_resources_Inr [OF assms(2)] ResourceTenant_def ActionRead_def)


lemma CanAccessTenant_world:
  assumes "wf_store w"
  shows "CanAccessTenant (casbin_of w) u t =
           Inr (checkManager_CheckPermission (casbin_of w) u ''*''
                    \<lparr>Resource = ''tenant'', Action = ''read''\<rparr> = Inr True
                \<or> GetRolesForUserInDomain (casbin_of w) u t \<noteq> []
                \<or> (\<exists>res \<in> set coreResources. \<exists>a \<in> set AllActions.
                      checkManager_CheckPermission (casbin_of w) u t
                        \<lparr>Resource = res, Action = a\<rparr> = Inr True))"
proof -
  from assms obtain pg where pg: "GetImplicitPermissions (casbin_of w) u ''*'' = Inr pg"
    using GetImplicitPermissions_world_total by blast
  from assms obtain pt where pt: "GetImplicitPermissions (casbin_of w) u t = Inr pt"
    using GetImplicitPermissions_world_total by blast
  show ?thesis
    by (simp add: CanAccessTenant_Inr [OF pg pt] CheckPermission_Inr [OF pg]
        CheckPermission_Inr [OF pt] list_ex_iff)
qed

lemma holds_direct:
  assumes "wf_store w" and "(u, t, res, a) \<in> set (p_rules w)"
  shows "checkManager_CheckPermission (casbin_of w) u t \<lparr>Resource = res, Action = a\<rparr> = Inr True"
proof -
  from assms(1) obtain pt where pt: "GetImplicitPermissions (casbin_of w) u t = Inr pt"
    using GetImplicitPermissions_world_total by blast
  have "p_matches u t (u, t, res, a)"
    by (simp add: p_matches_def)
  with assms(2) have "\<lparr>Resource = res, Action = a\<rparr> \<in> PermissionsOf (casbin_of w) u t"
    by (force simp add: PermissionsOf_world p_permission_def)
  then have "\<lparr>Resource = res, Action = a\<rparr> \<in> set pt"
    using GetImplicitPermissions_set [OF pt] by blast
  then show ?thesis
    by (simp add: CheckPermission_Inr [OF pt])
qed

lemma CanAccessTenant_after_assignment:
  assumes "wf_store w" and "userManager_AssignRole w operatorKey u r t = (w', None)"
  shows "CanAccessTenant (casbin_of w') u t = Inr True"
proof -
  from assms(2) have w': "w' = fst (casbin_AddRoleForUserInDomain w u r t)"
    by (auto simp add: userManager_AssignRole_def AddGroupingPolicy_def
        split: if_splits option.splits)
  then have p: "p_rules w' = p_rules w" and g: "(u, r, t) \<in> set (g_rules w')"
    by (auto simp add: casbin_AddRoleForUserInDomain_def)
  from p assms(1) have wf: "wf_store w'"
    by (simp add: wf_store_def)
  from g have "r \<in> set (GetRolesForUserInDomain (casbin_of w') u t)"
    by (simp add: set_roles_world)
  then have "GetRolesForUserInDomain (casbin_of w') u t \<noteq> []"
    by auto
  then show ?thesis
    by (simp add: CanAccessTenant_world [OF wf])
qed

lemma CanAccessTenant_after_core_grant:
  assumes "wf_store w" and "res \<in> set coreResources" and "a \<in> set AllActions"
    and "userManager_GrantPermission w operatorKey u t \<lparr>Resource = res, Action = a\<rparr> = (w', None)"
  shows "CanAccessTenant (casbin_of w') u t = Inr True"
proof -
  from assms(4) have w': "w' = fst (casbin_AddPolicy w u t res a)"
    by (auto simp add: userManager_GrantPermission_def AddPolicy_def
        split: if_splits option.splits)
  from assms(3) have "validAction a"
    by (auto simp add: AllActions_def validAction_def Action_defs)
  with w' assms(1) have wf: "wf_store w'"
    by (auto simp add: casbin_AddPolicy_def wf_store_def)
  from w' have "(u, t, res, a) \<in> set (p_rules w')"
    by (auto simp add: casbin_AddPolicy_def)
  from holds_direct [OF wf this] assms(2,3) show ?thesis
    by (auto simp add: CanAccessTenant_world [OF wf])
qed

lemma CanAccessTenant_without_tuples:
  assumes "wf_store w" and "u \<noteq> []" and "t \<noteq> []"
    and "\<And>res a. (u, t, res, a) \<notin> set (p_rules w)"
    and "\<And>r. (u, r, t) \<notin> set (g_rules w)"
    and "\<And>r. (u, r, ''*'') \<notin> set (g_rules w)"
    and "checkManager_CheckPermission (casbin_of w) u ''*''
           \<lparr>Resource = ''tenant'', Action = ''read''\<rparr> = Inr False"
  shows "CanAccessTenant (casbin_of w) u t = Inr False"
proof -
  from assms(1) obtain pt where pt: "GetImplicitPermissions (casbin_of w) u t = Inr pt"
    using GetImplicitPermissions_world_total by blast
  have roles: "GetRolesForUserInDomain (casbin_of w) u t = []"
    "GetRolesForUserInDomain (casbin_of w) u ''*'' = []"
    using assms(5,6) set_roles_world [of w u t] set_roles_world [of w u "''*''"] by auto
  have "PermissionsOf (casbin_of w) u t = {}"
    using assms(2,3,4) by (auto simp add: PermissionsOf_world p_matches_def)
  with roles have "set pt = {}"
    using GetImplicitPermissions_set [OF pt] by simp
  then show ?thesis
    using roles assms(7)
    by (simp add: CanAccessTenant_world [OF assms(1)] CheckPermission_Inr [OF pt])
qed

lemma engine_AssignRole_success:
  "casbinxClient_AssignRole c w operatorKey u r t = (w', None) \<Longrightarrow>
     userManager_AssignRole w operatorKey u r t = (w', None)"
  by (auto simp add: casbinxClient_AssignRole_def split: option.splits sum.splits if_splits)

lemma engine_GrantPermission_success:
  "casbinxClient_GrantPermission c w operatorKey u t p = (w', None) \<Longrightarrow>
     userManager_GrantPermission w operatorKey u t p = (w', None)"
  by (auto simp add: casbinxClient_GrantPermission_def split: option.splits)

text \<open>
  C6 (as the code has it). On a well-formed store, \<open>CanAccessTenant(u, t)\<close> is true
  exactly when \<open>u\<close> holds \<open>{tenant, read}\<close> in the global domain, or has a role in \<open>t\<close>,
  or holds read, write or delete on one of the core resources user, role, permission,
  system, tenant in \<open>t\<close>; to hold means to have among the effective permissions, so
  permissions of roles held in the global domain count. Hence it is true right after a
  successful role assignment of \<open>u\<close> in \<open>t\<close> and right after a successful grant to \<open>u\<close>
  in \<open>t\<close> of such a permission on a core resource, and it is false for a user with no
  permission rule in \<open>t\<close>, no role in \<open>t\<close>, no role in the global domain and no global
  \<open>{tenant, read}\<close>.
\<close>

theorem CanAccessTenant_rule:
  assumes "wf_store w"
  shows "CanAccessTenant (casbin_of w) u t =
           Inr (checkManager_CheckPermission (casbin_of w) u ''*''
                    \<lparr>Resource = ''tenant'', Action = ''read''\<rparr> = Inr True
                \<or> GetRolesForUserInDomain (casbin_of w) u t \<noteq> []
                \<or> (\<exists>res \<in> set coreResources. \<exists>a \<in> set AllActions.
                      checkManager_CheckPermission (casbin_of w) u t
                        \<lparr>Resource = res, Action = a\<rparr> = Inr True))
         \<and> (casbinxClient_AssignRole c w operatorKey u r t = (w1, None)
              \<longrightarrow> CanAccessTenant (casbin_of w1) u t = Inr True)
         \<and> (res \<in> set coreResources \<and> a \<in> set AllActions
              \<and> casbinxClient_GrantPermission c w operatorKey u t \<lparr>Resource = res, Action = a\<rparr>
                  = (w2, None)
              \<longrightarrow> CanAccessTenant (casbin_of w2) u t = Inr True)
         \<and> (u \<noteq> [] \<and> t \<noteq> []
              \<and> (\<forall>res a. (u, t, res, a) \<notin> set (p_rules w))
              \<and> (\<forall>r. (u, r, t) \<notin> set (g_rules w))
              \<and> (\<forall>r. (u, r, ''*'') \<notin> set (g_rules w))
              \<and> checkManager_CheckPermission (casbin_of w) u ''*''
                    \<lparr>Resource = ''tenant'', Action = ''read''\<rparr> = Inr False
              \<longrightarrow> CanAccessTenant (casbin_of w) u t = Inr False)"
proof (intro conjI impI)
  show "CanAccessTenant (casbin_of w) u t =
           Inr (checkManager_CheckPermission (casbin_of w) u ''*''
                    \<lparr>Resource = ''tenant'', Action = ''read''\<rparr> = Inr True
                \<or> GetRolesForUserInDomain (casbin_of w) u t \<noteq> []
                \<or> (\<exists>res \<in> set coreResources. \<exists>a \<in> set AllActions.
                      checkManager_CheckPermission (casbin_of w) u t
                        \<lparr>Resource = res, Action = a\<rparr> = Inr True))"
    by (rule CanAccessTenant_world [OF assms])
next
  assume "casbinxClient_AssignRole c w operatorKey u r t = (w1, None)"
  then show "CanAccessTenant (casbin_of w1) u t = Inr True"
    by (intro CanAccessTenant_after_assignment [OF assms] engine_AssignRole_success)
next
  assume "res \<in> set coreResources \<and> a \<in> set AllActions
              \<and> casbinxClient_GrantPermission c w operatorKey u t \<lparr>Resource = res, Action = a\<rparr>
                  = (w2, None)"
  then show "CanAccessTenant (casbin_of w2) u t = Inr True"
    using CanAccessTenant_after_core_grant [OF assms] engine_GrantPermission_success by blast
next
  assume "u \<noteq> [] \<and> t \<noteq> []
              \<and> (\<forall>res a. (u, t, res, a) \<notin> set (p_rules w))
              \<and> (\<forall>r. (u, r, t) \<notin> set (g_rules w))
              \<and> (\<forall>r. (u, r, ''*'') \<notin> set (g_rules w))
              \<and> checkManager_CheckPermission (casbin_of w) u ''*''
                    \<lparr>Resource = ''tenant'', Action = ''read''\<rparr> = Inr False"
  then show "CanAccessTenant (casbin_of w) u t = Inr False"
    using CanAccessTenant_without_tuples [OF assms] by blast
qed

lemma wf_admin_world: "wf_store admin_world"
  by (simp add: wf_store_def admin_world_def validAction_def)

lemma admin_assigns_editor:
  "casbinxClient_AssignRole DefaultSecurityConfig admin_world ''admin1'' ''user2'' ''editor'' ''t1''
     = (admin_world \<lparr> g_rules := [(''user9'', ''auditor'', ''*''), (''user2'', ''editor'', ''t1'')] \<rparr>, None)"
  by (simp add: admin_world_def model_defs)

lemma admin_grants_role_read:
  "casbinxClient_GrantPermission DefaultSecurityConfig admin_world ''admin1'' ''user2'' ''t1''
       \<lparr>Resource = ''role'', Action = ''read''\<rparr>
     = (admin_world \<lparr> p_rules := p_rules admin_world @ [(''user2'', ''t1'', ''role'', ''read'')] \<rparr>, None)"
  by (simp add: admin_world_def model_defs)

theorem CanAccessTenant_rule_witness:
  "CanAccessTenant (casbin_of admin_world) ''admin1'' ''t1'' = Inr True
   \<and> CanAccessTenant
       (casbin_of (admin_world \<lparr> g_rules := [(''user9'', ''auditor'', ''*''), (''user2'', ''editor'', ''t1'')] \<rparr>))
       ''user2'' ''t1'' = Inr True
   \<and> CanAccessTenant
       (casbin_of (admin_world \<lparr> p_rules := p_rules admin_world @ [(''user2'', ''t1'', ''role'', ''read'')] \<rparr>))
       ''user2'' ''t1'' = Inr True
   \<and> CanAccessTenant (casbin_of admin_world) ''user2'' ''t1'' = Inr False"
proof -
  note rule = CanAccessTenant_rule [OF wf_admin_world]
  have held: "checkManager_CheckPermission (casbin_of admin_world) ''admin1'' ''t1''
                \<lparr>Resource = ''user'', Action = ''write''\<rparr> = Inr True"
    by (simp add: admin_world_def model_defs)
  have "ResourceUser \<in> set coreResources" "ActionWrite \<in> set AllActions"
    by (simp_all add: coreResources_def AllActions_def)
  with held have a: "CanAccessTenant (casbin_of admin_world) ''admin1'' ''t1'' = Inr True"
    using rule [where u = "''admin1''" and t = "''t1''"] by (auto simp add: ResourceUser_def ActionWrite_def)
  have b: "CanAccessTenant
       (casbin_of (admin_world \<lparr> g_rules := [(''user9'', ''auditor'', ''*''), (''user2'', ''editor'', ''t1'')] \<rparr>))
       ''user2'' ''t1'' = Inr True"
    using rule [where u = "''user2''" and t = "''t1''" and c = DefaultSecurityConfig
        and operatorKey = "''admin1''" and r = "''editor''"]
      admin_assigns_editor by simp
  have "ResourceRole \<in> set coreResources" "ActionRead \<in> set AllActions"
    by (simp_all add: coreResources_def AllActions_def)
  then have c: "CanAccessTenant
       (casbin_of (admin_world \<lparr> p_rules := p_rules admin_world @ [(''user2'', ''t1'', ''role'', ''read'')] \<rparr>))
       ''user2'' ''t1'' = Inr True"
    using rule [where u = "''user2''" and t = "''t1''" and res = ResourceRole and a = ActionRead
        and c = DefaultSecurityConfig and operatorKey = "''admin1''"]
      admin_grants_role_read by (simp add: ResourceRole_def ActionRead_def)
  have no: "checkManager_CheckPermission (casbin_of admin_world) ''user2'' ''*''
                    \<lparr>Resource = ''tenant'', Action = ''read''\<rparr> = Inr False"
    by (simp add: admin_world_def model_defs)
  have h: "''user2'' \<noteq> [] \<and> ''t1'' \<noteq> []
              \<and> (\<forall>res a. (''user2'', ''t1'', res, a) \<notin> set (p_rules admin_world))
              \<and> (\<forall>r. (''user2'', r, ''t1'') \<notin> set (g_rules admin_world))
              \<and> (\<forall>r. (''user2'', r, ''*'') \<notin> set (g_rules admin_world))
              \<and> checkManager_CheckPermission (casbin_of admin_world) ''user2'' ''*''
                    \<lparr>Resource = ''tenant'', Action = ''read''\<rparr> = Inr False"
    using no by (simp add: admin_world_def)
  have d: "CanAccessTenant (casbin_of admin_world) ''user2'' ''t1'' = Inr False"
    using rule [where u = "''user2''" and t = "''t1''", THEN conjunct2, THEN conjunct2,
        THEN conjunct2, THEN mp, OF h] .
  from a b c d show ?thesis by (intro conjI)
qed

text \<open>
  C6 as stated fails twice. A grant of \<open>{document, read}\<close> to \<open>user2\<close> in \<open>t1\<close> succeeds
  and places a rule of \<open>user2\<close> in \<open>t1\<close>, yet \<open>CanAccessTenant(user2, t1)\<close> is false
  afterwards: \<open>document\<close> is not a core resource. And \<open>user9\<close> has no rule and no role in
  \<open>t1\<close> and no global \<open>{tenant, read}\<close>, yet \<open>CanAccessTenant(user9, t1)\<close> is true: the
  global role \<open>auditor\<close> gives \<open>{user, read}\<close> in every tenant.
\<close>

theorem CanAccessTenant_not_isolation:
  "casbinxClient_GrantPermission DefaultSecurityConfig admin_world ''admin1'' ''user2'' ''t1''
       \<lparr>Resource = ''document'', Action = ''read''\<rparr>
     = (admin_world \<lparr> p_rules := p_rules admin_world @ [(''user2'', ''t1'', ''document'', ''read'')] \<rparr>, None)
   \<and> CanAccessTenant
       (casbin_of (admin_world \<lparr> p_rules := p_rules admin_world @ [(''user2'', ''t1'', ''document'', ''read'')] \<rparr>))
       ''user2'' ''t1'' = Inr False
   \<and> (\<forall>res a. (''user9'', ''t1'', res, a) \<notin> set (p_rules admin_world))
   \<and> (\<forall>r. (''user9'', r, ''t1'') \<notin> set (g_rules admin_world))
   \<and> checkManager_CheckPermission (casbin_of admin_world) ''user9'' ''*''
         \<lparr>Resource = ''tenant'', Action = ''read''\<rparr> = Inr False
   \<and> CanAccessTenant (casbin_of admin_world) ''user9'' ''t1'' = Inr True"
  by (simp add: admin_world_def model_defs)

section \<open>Properties of replacing a role's permissions\<close>

lemma p_fields_tuple: "p_fields (s, dm, r, a) = [s, dm, r, a]"
  by (simp add: p_fields_def)

lemma p_policy_tuple:
  "p_policy (s, dm, r, a) =
     \<lparr> Type = PolicyTypePermission, Subject = s, Domain = dm, Policy.Resource = r, Policy.Action = a \<rparr>"
  by (simp add: p_policy_def)

lemma p_matches_tuple:
  "p_matches subject domain (s, dm, r, a) \<longleftrightarrow>
     (subject = [] \<or> s = subject) \<and> (domain = [] \<or> dm = domain)"
  by (simp add: p_matches_def)

lemma p_permission_tuple: "p_permission (s, dm, r, a) = \<lparr> Resource = r, Action = a \<rparr>"
  by (simp add: p_permission_def)

lemmas tuple_simps = p_fields_tuple p_policy_tuple p_matches_tuple p_permission_tuple

lemma GetPolicies_loop_world:
  "list_all (\<lambda>rule. validAction (snd (snd (snd rule)))) rules \<Longrightarrow>
     GetPolicies_loop subject domain (map p_fields rules) =
       Inr (map p_policy (filter (p_matches subject domain) rules))"
proof (induction rules)
  case Nil
  then show ?case by simp
next
  case (Cons rule rules)
  obtain s dm r a where rule: "rule = (s, dm, r, a)"
    by (cases rule) auto
  with Cons show ?case
    by (simp add: tuple_simps ParseAction_valid)
qed

lemma GetPolicies_loop_world_Inr:
  "GetPolicies_loop subject domain (map p_fields rules) = Inr ps \<Longrightarrow>
     list_all (\<lambda>rule. validAction (snd (snd (snd rule)))) rules"
proof (induction rules arbitrary: ps)
  case Nil
  then show ?case by simp
next
  case (Cons rule rules)
  obtain s dm r a where rule: "rule = (s, dm, r, a)"
    by (cases rule) auto
  from Cons.prems rule have "validAction a"
    by (auto simp add: tuple_simps ParseAction_Inr split: sum.splits)
  moreover from Cons.prems rule obtain ps' where
    "GetPolicies_loop subject domain (map p_fields rules) = Inr ps'"
    by (auto simp add: tuple_simps split: sum.splits)
  ultimately show ?case
    using Cons.IH rule by simp
qed

lemma GetPolicies_world:
  "wf_store w \<Longrightarrow>
     GetPolicies (casbin_of w) subject domain =
       Inr (map p_policy (filter (p_matches subject domain) (p_rules w)))"
  by (simp add: GetPolicies_def casbin_of_def wf_store_def GetPolicies_loop_world)

lemma GetPolicies_world_Inr:
  "GetPolicies (casbin_of w) subject domain = Inr ps \<Longrightarrow> wf_store w"
  by (simp add: GetPolicies_def casbin_of_def wf_store_def GetPolicies_loop_world_Inr)

lemma removeAll_filter: "removeAll r xs = filter (\<lambda>rule. rule \<noteq> r) xs"
  by (induction xs) auto

lemma ClearPolicies_loop_world:
  "ClearPolicies_loop w (map p_policy rs) =
     (w \<lparr> p_rules := filter (\<lambda>rule. rule \<notin> set rs) (p_rules w) \<rparr>, None)"
proof (induction rs arbitrary: w)
  case Nil
  then show ?case by simp
next
  case (Cons r rs)
  obtain s dm ob a where r: "r = (s, dm, ob, a)"
    by (cases r) auto
  have step: "casbin_RemovePolicy w s dm ob a
          = (w \<lparr> p_rules := filter (\<lambda>rule. rule \<noteq> r) (p_rules w) \<rparr>, None)"
    by (simp add: casbin_RemovePolicy_def removeAll_filter r)
  have "filter (\<lambda>rule. rule \<notin> set rs) (filter (\<lambda>rule. rule \<noteq> r) (p_rules w))
          = filter (\<lambda>rule. rule \<notin> set (r # rs)) (p_rules w)"
    by (simp add: conj_commute)
  then show ?case
    by (simp add: Cons.IH step tuple_simps r)
qed


lemma ClearPolicies_world:
  assumes "ClearPolicies w subject = (w1, None)"
  shows "wf_store w
         \<and> w1 = w \<lparr> p_rules := filter (\<lambda>rule. \<not> p_matches subject [] rule) (p_rules w) \<rparr>"
proof -
  from assms obtain ps where ps: "GetPolicies (casbin_of w) subject [] = Inr ps"
    by (auto simp add: ClearPolicies_def split: sum.splits)
  then have wf: "wf_store w"
    by (rule GetPolicies_world_Inr)
  have "filter (\<lambda>rule. rule \<notin> set (filter (p_matches subject []) (p_rules w))) (p_rules w)
          = filter (\<lambda>rule. \<not> p_matches subject [] rule) (p_rules w)"
    by (rule filter_cong) auto
  with assms wf show ?thesis
    by (simp add: ClearPolicies_def GetPolicies_world ClearPolicies_loop_world)
qed

lemma ClearPolicies_world_total:
  "wf_store w \<Longrightarrow>
     ClearPolicies w subject =
       (w \<lparr> p_rules := filter (\<lambda>rule. \<not> p_matches subject [] rule) (p_rules w) \<rparr>, None)"
proof -
  assume wf: "wf_store w"
  have "filter (\<lambda>rule. rule \<notin> set (filter (p_matches subject []) (p_rules w))) (p_rules w)
          = filter (\<lambda>rule. \<not> p_matches subject [] rule) (p_rules w)"
    by (rule filter_cong) auto
  with wf show ?thesis
    by (simp add: ClearPolicies_def GetPolicies_world ClearPolicies_loop_world)
qed

lemma AddPolicy_world:
  "AddPolicy w roleKey domain perm =
     (w \<lparr> p_rules := p_rules w @ (if role_rule roleKey domain perm \<in> set (p_rules w) then []
                                    else [role_rule roleKey domain perm]) \<rparr>, None)"
  by (simp add: AddPolicy_def casbin_AddPolicy_def role_rule_def)

lemma addRolePolicies_loop_world:
  "\<exists>extra. addRolePolicies_loop w roleKey domain perms = (w \<lparr> p_rules := p_rules w @ extra \<rparr>, None)
      \<and> set (p_rules w) \<union> set extra
          = set (p_rules w) \<union> role_rule roleKey domain ` {p \<in> set perms. IsValid p}
      \<and> set extra \<subseteq> role_rule roleKey domain ` {p \<in> set perms. IsValid p}"
proof (induction perms arbitrary: w)
  case Nil
  show ?case
    by (rule exI [of _ "[]"]) simp
next
  case (Cons perm rest)
  show ?case
  proof (cases "IsValid perm")
    case False
    from Cons [of w] obtain extra where
      e: "addRolePolicies_loop w roleKey domain rest = (w \<lparr> p_rules := p_rules w @ extra \<rparr>, None)"
      and s: "set (p_rules w) \<union> set extra
          = set (p_rules w) \<union> role_rule roleKey domain ` {p \<in> set rest. IsValid p}"
      and sub: "set extra \<subseteq> role_rule roleKey domain ` {p \<in> set rest. IsValid p}"
      by blast
    from False have same: "{p \<in> set (perm # rest). IsValid p} = {p \<in> set rest. IsValid p}"
      by auto
    from e False have
      "addRolePolicies_loop w roleKey domain (perm # rest) = (w \<lparr> p_rules := p_rules w @ extra \<rparr>, None)"
      by simp
    with s sub same show ?thesis
      by (intro exI [of _ extra]) (simp only: simp_thms)
  next
    case True
    define first where
      "first = (if role_rule roleKey domain perm \<in> set (p_rules w) then []
                else [role_rule roleKey domain perm])"
    define w1 where "w1 = w \<lparr> p_rules := p_rules w @ first \<rparr>"
    have a: "AddPolicy w roleKey domain perm = (w1, None)"
      by (simp add: AddPolicy_world w1_def first_def)
    have p1: "p_rules w1 = p_rules w @ first"
      by (simp add: w1_def)
    from Cons [of w1] obtain extra where
      e: "addRolePolicies_loop w1 roleKey domain rest = (w1 \<lparr> p_rules := p_rules w1 @ extra \<rparr>, None)"
      and s: "set (p_rules w1) \<union> set extra
          = set (p_rules w1) \<union> role_rule roleKey domain ` {p \<in> set rest. IsValid p}"
      and sub: "set extra \<subseteq> role_rule roleKey domain ` {p \<in> set rest. IsValid p}"
      by blast
    have w2: "w1 \<lparr> p_rules := p_rules w1 @ extra \<rparr> = w \<lparr> p_rules := p_rules w @ (first @ extra) \<rparr>"
      by (simp add: w1_def)
    from e a True have run:
      "addRolePolicies_loop w roleKey domain (perm # rest)
         = (w \<lparr> p_rules := p_rules w @ (first @ extra) \<rparr>, None)"
      by (simp add: w2)
    have valid: "{p \<in> set (perm # rest). IsValid p} = insert perm {p \<in> set rest. IsValid p}"
      using True by auto
    have f: "set (p_rules w) \<union> set first = insert (role_rule roleKey domain perm) (set (p_rules w))"
      by (auto simp add: first_def)
    have s': "set (p_rules w) \<union> set (first @ extra)
          = set (p_rules w) \<union> role_rule roleKey domain ` {p \<in> set (perm # rest). IsValid p}"
    proof -
      have "set (p_rules w) \<union> set (first @ extra) = (set (p_rules w1) \<union> set extra)"
        by (simp add: p1 Un_assoc)
      also have "\<dots> = set (p_rules w1) \<union> role_rule roleKey domain ` {p \<in> set rest. IsValid p}"
        by (rule s)
      also have "\<dots> = insert (role_rule roleKey domain perm) (set (p_rules w))
                        \<union> role_rule roleKey domain ` {p \<in> set rest. IsValid p}"
        by (simp add: p1 f)
      also have "\<dots> = set (p_rules w) \<union> role_rule roleKey domain ` {p \<in> set (perm # rest). IsValid p}"
        by (simp only: valid image_insert) blast
      finally show ?thesis .
    qed
    have "set first \<subseteq> {role_rule roleKey domain perm}"
      by (simp add: first_def)
    with sub have sub': "set (first @ extra) \<subseteq> role_rule roleKey domain ` {p \<in> set (perm # rest). IsValid p}"
      by (simp only: valid image_insert set_append) blast
    from run s' sub' show ?thesis
      by (intro exI [of _ "first @ extra"]) (simp only: simp_thms)
  qed
qed

lemma fst_role_rule: "fst (role_rule roleKey domain p) = roleKey"
  by (simp add: role_rule_def)

lemma p_matches_subject: "subject \<noteq> [] \<Longrightarrow> p_matches subject [] rule \<longleftrightarrow> fst rule = subject"
  by (cases rule) (auto simp add: p_matches_def)

lemma setRolePermissions_shape:
  assumes "setRolePermissions w roleKey permissions = (w', None)" and "roleKey \<noteq> []"
  shows "wf_store w
         \<and> (\<exists>extra. w' = w \<lparr> p_rules := filter (\<lambda>rule. fst rule \<noteq> roleKey) (p_rules w) @ extra \<rparr>
                \<and> set extra = role_rule roleKey ''*'' ` written_permissions permissions)"
proof -
  obtain w1 where c: "ClearPolicies w roleKey = (w1, None)"
    using assms(1) by (auto simp add: setRolePermissions_def split: prod.splits option.splits)
  from ClearPolicies_world [OF c] assms(2) have wf: "wf_store w"
    and w1: "w1 = w \<lparr> p_rules := filter (\<lambda>rule. fst rule \<noteq> roleKey) (p_rules w) \<rparr>"
    by (simp_all add: p_matches_subject)
  let ?kept = "filter (\<lambda>rule. fst rule \<noteq> roleKey) (p_rules w)"
  have p1: "p_rules w1 = ?kept"
    by (simp add: w1)
  obtain extra where
    e: "addRolePolicies_loop w1 roleKey ''*'' permissions = (w1 \<lparr> p_rules := p_rules w1 @ extra \<rparr>, None)"
    and s: "set (p_rules w1) \<union> set extra
          = set (p_rules w1) \<union> role_rule roleKey ''*'' ` {p \<in> set permissions. IsValid p}"
    and sub: "set extra \<subseteq> role_rule roleKey ''*'' ` {p \<in> set permissions. IsValid p}"
    using addRolePolicies_loop_world [of w1 roleKey "''*''" permissions] by blast
  have disjoint: "rule \<in> set (p_rules w1) \<Longrightarrow> rule \<notin> role_rule roleKey ''*'' ` A" for rule A
    by (auto simp add: p1 fst_role_rule)
  have extra: "set extra = role_rule roleKey ''*'' ` {p \<in> set permissions. IsValid p}"
  proof
    show "set extra \<subseteq> role_rule roleKey ''*'' ` {p \<in> set permissions. IsValid p}"
      by (rule sub)
    show "role_rule roleKey ''*'' ` {p \<in> set permissions. IsValid p} \<subseteq> set extra"
    proof
      fix rule
      assume r: "rule \<in> role_rule roleKey ''*'' ` {p \<in> set permissions. IsValid p}"
      then have "rule \<in> set (p_rules w1) \<union> set extra"
        using s by blast
      with r disjoint show "rule \<in> set extra"
        by blast
    qed
  qed
  define w2 where "w2 = w1 \<lparr> p_rules := p_rules w1 @ extra \<rparr>"
  have w2: "w2 = w \<lparr> p_rules := ?kept @ extra \<rparr>"
    by (simp add: w2_def w1)
  show ?thesis
  proof (cases "permissions = []")
    case False
    with assms(1) c e have "w' = w2"
      by (simp add: setRolePermissions_def w2_def)
    with False extra w2 wf show ?thesis
      by (auto simp add: written_permissions_def)
  next
    case True
    with extra have none: "extra = []"
      by simp
    from True assms(1) c e have "AddPolicy w2 roleKey ''*'' placeholder = (w', None)"
      by (simp add: setRolePermissions_def w2_def placeholder_def)
    moreover have "role_rule roleKey ''*'' placeholder \<notin> set (p_rules w2)"
      using disjoint [of "role_rule roleKey ''*'' placeholder" "{placeholder}"]
      by (auto simp add: w2_def none)
    ultimately have "w' = w \<lparr> p_rules := ?kept @ [role_rule roleKey ''*'' placeholder] \<rparr>"
      by (auto simp add: AddPolicy_world w2 none fst_role_rule)
    with True wf show ?thesis
      by (auto simp add: written_permissions_def)
  qed
qed

lemma setRolePermissions_total:
  assumes "wf_store w"
  shows "\<exists>w'. setRolePermissions w roleKey permissions = (w', None)"
proof -
  let ?w1 = "w \<lparr> p_rules := filter (\<lambda>rule. \<not> p_matches roleKey [] rule) (p_rules w) \<rparr>"
  obtain extra where
    "addRolePolicies_loop ?w1 roleKey ''*'' permissions = (?w1 \<lparr> p_rules := p_rules ?w1 @ extra \<rparr>, None)"
    using addRolePolicies_loop_world [of ?w1 roleKey "''*''" permissions] by blast
  then show ?thesis
    by (simp add: setRolePermissions_def ClearPolicies_world_total [OF assms] AddPolicy_world)
qed

lemma role_SetRolePermissions_success:
  "roleManager_SetRolePermissions sv w roleKey permissions = (w', None) \<Longrightarrow>
     roleKey \<noteq> [] \<and> setRolePermissions w roleKey permissions = (w', None)"
  by (auto simp add: roleManager_SetRolePermissions_def split: if_splits sum.splits)

lemma engine_SetRolePermissions_success:
  "casbinxClient_SetRolePermissions c w operatorKey roleKey permissions = (w', None) \<Longrightarrow>
     roleManager_SetRolePermissions (validator c w) w roleKey permissions = (w', None)"
  by (auto simp add: casbinxClient_SetRolePermissions_def split: option.splits sum.splits)


lemma wf_store_append:
  "wf_store (w \<lparr> p_rules := xs @ ys \<rparr>) \<longleftrightarrow>
     list_all (\<lambda>rule. validAction (snd (snd (snd rule)))) xs
     \<and> list_all (\<lambda>rule. validAction (snd (snd (snd rule)))) ys"
  by (simp add: wf_store_def)

lemma permission_eta:
  "\<lparr>Resource = Permission.Resource p, Action = Permission.Action p\<rparr> = p"
  by simp

lemma role_permissions_visible:
  assumes wf: "wf_store w" and held: "(u, roleKey, t) \<in> set (g_rules w)"
    and rule: "role_rule roleKey ''*'' p \<in> set (p_rules w)"
    and eff: "GetImplicitPermissions (casbin_of w) u t = Inr eff"
  shows "p \<in> set eff"
proof -
  have "p_matches roleKey ''*'' (role_rule roleKey ''*'' p)"
    by (simp add: role_rule_def p_matches_def)
  with rule have "p_permission (role_rule roleKey ''*'' p) \<in> PermissionsOf (casbin_of w) roleKey ''*''"
    unfolding PermissionsOf_world by blast
  then have p: "p \<in> PermissionsOf (casbin_of w) roleKey ''*''"
    by (simp add: role_rule_def p_permission_def permission_eta)
  from held have "roleKey \<in> set (GetRolesForUserInDomain (casbin_of w) u t)"
    by (simp add: set_roles_world)
  with p show ?thesis
    unfolding GetImplicitPermissions_set [OF eff] by blast
qed

text \<open>
  C9. After a successful \<open>SetRolePermissions(roleKey, permissions)\<close>, through the role
  manager or through the engine, the rules of the role are exactly one rule in the
  global domain \<open>*\<close> for each permission written (the placeholder when the list is
  empty, else each permission of the list with both fields non-empty): every rule the
  role had before, in whatever domain, is gone unless it is one of these, and the role
  has no rule outside \<open>*\<close>. The role's owning tenant plays no part. Rules of other
  subjects, role assignments and the role table are unchanged. The new permissions are
  visible in every tenant: when the actions of the list parse, a user that holds the role
  in any domain has all of them among the effective permissions in that domain.
\<close>

theorem SetRolePermissions_writes_global_domain:
  assumes "roleManager_SetRolePermissions sv w roleKey permissions = (w', None)
           \<or> casbinxClient_SetRolePermissions c w operatorKey roleKey permissions = (w', None)"
  shows "{rule \<in> set (p_rules w'). fst rule = roleKey}
           = role_rule roleKey ''*'' ` written_permissions permissions
         \<and> filter (\<lambda>rule. fst rule \<noteq> roleKey) (p_rules w')
             = filter (\<lambda>rule. fst rule \<noteq> roleKey) (p_rules w)
         \<and> g_rules w' = g_rules w \<and> roles_tbl w' = roles_tbl w
         \<and> (\<forall>s dm r a. (s, dm, r, a) \<in> set (p_rules w') \<and> s = roleKey \<longrightarrow> dm = ''*'')
         \<and> (list_all (\<lambda>p. validAction (Permission.Action p)) permissions
              \<and> (u, roleKey, t) \<in> set (g_rules w')
              \<longrightarrow> (\<exists>eff. GetImplicitPermissions (casbin_of w') u t = Inr eff
                         \<and> written_permissions permissions \<subseteq> set eff))"
proof -
  from assms have "\<exists>sv'. roleManager_SetRolePermissions sv' w roleKey permissions = (w', None)"
    using engine_SetRolePermissions_success by blast
  then have key: "roleKey \<noteq> []" and run: "setRolePermissions w roleKey permissions = (w', None)"
    using role_SetRolePermissions_success by blast+
  from setRolePermissions_shape [OF run key] obtain extra where wf: "wf_store w"
    and w': "w' = w \<lparr> p_rules := filter (\<lambda>rule. fst rule \<noteq> roleKey) (p_rules w) @ extra \<rparr>"
    and extra: "set extra = role_rule roleKey ''*'' ` written_permissions permissions"
    by blast
  have fst_extra: "rule \<in> set extra \<Longrightarrow> fst rule = roleKey" for rule
    using extra by (auto simp add: fst_role_rule)
  have role_rules: "{rule \<in> set (p_rules w'). fst rule = roleKey}
           = role_rule roleKey ''*'' ` written_permissions permissions"
    using fst_extra by (auto simp add: w' extra [symmetric])
  have "filter (\<lambda>rule. fst rule \<noteq> roleKey) extra = []"
    using fst_extra by (simp add: filter_empty_conv)
  then have others: "filter (\<lambda>rule. fst rule \<noteq> roleKey) (p_rules w')
             = filter (\<lambda>rule. fst rule \<noteq> roleKey) (p_rules w)"
    by (simp add: w')
  have global: "\<forall>s dm r a. (s, dm, r, a) \<in> set (p_rules w') \<and> s = roleKey \<longrightarrow> dm = ''*''"
  proof (intro allI impI)
    fix s dm r a
    assume "(s, dm, r, a) \<in> set (p_rules w') \<and> s = roleKey"
    then have "(s, dm, r, a) \<in> {rule \<in> set (p_rules w'). fst rule = roleKey}"
      by auto
    then show "dm = ''*''"
      unfolding role_rules by (auto simp add: role_rule_def)
  qed
  have visible: "\<exists>eff. GetImplicitPermissions (casbin_of w') u t = Inr eff
                         \<and> written_permissions permissions \<subseteq> set eff"
    if valid: "list_all (\<lambda>p. validAction (Permission.Action p)) permissions"
      and held: "(u, roleKey, t) \<in> set (g_rules w')"
  proof -
    have "validAction (Permission.Action p)" if "p \<in> written_permissions permissions" for p
      using that valid
      by (auto simp add: written_permissions_def placeholder_def ActionNone_def validAction_def
          list_all_iff split: if_splits)
    then have "list_all (\<lambda>rule. validAction (snd (snd (snd rule)))) extra"
      using extra by (auto simp add: list_all_iff role_rule_def)
    moreover from wf have
      "list_all (\<lambda>rule. validAction (snd (snd (snd rule))))
         (filter (\<lambda>rule. fst rule \<noteq> roleKey) (p_rules w))"
      by (simp add: wf_store_def list_all_iff)
    ultimately have wf': "wf_store w'"
      by (simp add: w' wf_store_append)
    then obtain eff where eff: "GetImplicitPermissions (casbin_of w') u t = Inr eff"
      using GetImplicitPermissions_world_total by blast
    have "p \<in> set eff" if "p \<in> written_permissions permissions" for p
    proof -
      from that have "role_rule roleKey ''*'' p \<in> set (p_rules w')"
        using role_rules by blast
      from role_permissions_visible [OF wf' held this eff] show ?thesis .
    qed
    with eff show ?thesis
      by blast
  qed
  from role_rules others global visible show ?thesis
    by (simp add: w')
qed

lemma admin_sets_editor_permissions:
  "casbinxClient_SetRolePermissions DefaultSecurityConfig editor_world ''admin1'' ''editor''
       [\<lparr>Resource = ''document'', Action = ''read''\<rparr>, \<lparr>Resource = ''document'', Action = ''write''\<rparr>]
     = (editor_world \<lparr> p_rules := [ (''admin1'', ''t1'', ''permission'', ''write''),
                                     (''editor'', ''*'', ''document'', ''read''),
                                     (''editor'', ''*'', ''document'', ''write'') ] \<rparr>, None)"
  by (simp add: editor_world_def model_defs)

theorem SetRolePermissions_writes_global_domain_witness:
  "casbinxClient_SetRolePermissions DefaultSecurityConfig editor_world ''admin1'' ''editor''
       [\<lparr>Resource = ''document'', Action = ''read''\<rparr>, \<lparr>Resource = ''document'', Action = ''write''\<rparr>]
     = (editor_world \<lparr> p_rules := [ (''admin1'', ''t1'', ''permission'', ''write''),
                                     (''editor'', ''*'', ''document'', ''read''),
                                     (''editor'', ''*'', ''document'', ''write'') ] \<rparr>, None)
   \<and> {rule \<in> set [ (''admin1'', ''t1'', ''permission'', ''write''),
                      (''editor'', ''*'', ''document'', ''read''),
                      (''editor'', ''*'', ''document'', ''write'') ]. fst rule = ''editor''}
       = {(''editor'', ''*'', ''document'', ''read''), (''editor'', ''*'', ''document'', ''write'')}
   \<and> (\<exists>eff. GetImplicitPermissions
         (casbin_of (editor_world \<lparr> p_rules := [ (''admin1'', ''t1'', ''permission'', ''write''),
                                     (''editor'', ''*'', ''document'', ''read''),
                                     (''editor'', ''*'', ''document'', ''write'') ] \<rparr>))
         ''user5'' ''t2'' = Inr eff
       \<and> {\<lparr>Resource = ''document'', Action = ''read''\<rparr>, \<lparr>Resource = ''document'', Action = ''write''\<rparr>}
            \<subseteq> set eff)"
proof -
  let ?perms = "[\<lparr>Resource = ''document'', Action = ''read''\<rparr>, \<lparr>Resource = ''document'', Action = ''write''\<rparr>]"
  note t = SetRolePermissions_writes_global_domain
    [where u = "''user5''" and t = "''t2''", OF disjI2, OF admin_sets_editor_permissions]
  have w: "written_permissions ?perms = set ?perms"
    by (auto simp add: written_permissions_def IsValid_def)
  from t have "{rule \<in> set [ (''admin1'', ''t1'', ''permission'', ''write''),
                      (''editor'', ''*'', ''document'', ''read''),
                      (''editor'', ''*'', ''document'', ''write'') ]. fst rule = ''editor''}
       = role_rule ''editor'' ''*'' ` written_permissions ?perms"
    by simp
  then have a: "{rule \<in> set [ (''admin1'', ''t1'', ''permission'', ''write''),
                      (''editor'', ''*'', ''document'', ''read''),
                      (''editor'', ''*'', ''document'', ''write'') ]. fst rule = ''editor''}
       = {(''editor'', ''*'', ''document'', ''read''), (''editor'', ''*'', ''document'', ''write'')}"
    by (simp only: w) (simp add: role_rule_def)
  have h: "list_all (\<lambda>p. validAction (Permission.Action p)) ?perms
      \<and> (''user5'', ''editor'', ''t2'')
          \<in> set (g_rules (editor_world \<lparr> p_rules := [ (''admin1'', ''t1'', ''permission'', ''write''),
                                     (''editor'', ''*'', ''document'', ''read''),
                                     (''editor'', ''*'', ''document'', ''write'') ] \<rparr>))"
    by (simp add: validAction_def editor_world_def)
  from t have "list_all (\<lambda>p. validAction (Permission.Action p)) ?perms
      \<and> (''user5'', ''editor'', ''t2'')
          \<in> set (g_rules (editor_world \<lparr> p_rules := [ (''admin1'', ''t1'', ''permission'', ''write''),
                                     (''editor'', ''*'', ''document'', ''read''),
                                     (''editor'', ''*'', ''document'', ''write'') ] \<rparr>))
      \<longrightarrow> (\<exists>eff. GetImplicitPermissions
         (casbin_of (editor_world \<lparr> p_rules := [ (''admin1'', ''t1'', ''permission'', ''write''),
                                     (''editor'', ''*'', ''document'', ''read''),
                                     (''editor'', ''*'', ''document'', ''write'') ] \<rparr>))
         ''user5'' ''t2'' = Inr eff
       \<and> written_permissions ?perms \<subseteq> set eff)"
    by (elim conjE)
  from this [THEN mp, OF h] have b: "\<exists>eff. GetImplicitPermissions
         (casbin_of (editor_world \<lparr> p_rules := [ (''admin1'', ''t1'', ''permission'', ''write''),
                                     (''editor'', ''*'', ''document'', ''read''),
                                     (''editor'', ''*'', ''document'', ''write'') ] \<rparr>))
         ''user5'' ''t2'' = Inr eff
       \<and> {\<lparr>Resource = ''document'', Action = ''read''\<rparr>, \<lparr>Resource = ''document'', Action = ''write''\<rparr>}
            \<subseteq> set eff"
    by (simp only: w) simp
  from admin_sets_editor_permissions a b show ?thesis
    by (intro conjI)
qed

section \<open>Properties of the role guards\<close>

lemma HasSystemPermissions_loop_iff:
  "HasSystemPermissions_loop sv ps \<longleftrightarrow> (\<exists>p \<in> set ps. p \<in> set (SystemPermissions (config sv)))"
  by (induction ps)
     (auto simp add: roleManager_isSystemPermission_def GetPermissionType_def isSystemPermission_iff)

lemma GetRolePermissions_Inr:
  "GetRolePermissions w roleKey = Inr ps \<Longrightarrow>
     roleKey \<noteq> [] \<and> isRoleExistsInDB w roleKey = Inr True"
  by (auto simp add: GetRolePermissions_def split: if_splits sum.splits)

lemma system_role_detected:
  assumes "GetRolePermissions w roleKey = Inr ps" and "p \<in> set ps"
    and "p \<in> set (SystemPermissions (config sv))"
  shows "HasSystemPermissions sv w roleKey = Inr True"
    and "hasSystemPerms_ignoring_error sv w roleKey"
    and "isRoleExists w roleKey = Inr True"
    and "isRoleExistsInDB w roleKey = Inr True" and "roleKey \<noteq> []"
proof -
  from GetRolePermissions_Inr [OF assms(1)]
  show db: "isRoleExistsInDB w roleKey = Inr True" and key: "roleKey \<noteq> []"
    by simp_all
  from assms(2,3) have "HasSystemPermissions_loop sv ps"
    by (auto simp add: HasSystemPermissions_loop_iff)
  with db key assms(1) show has: "HasSystemPermissions sv w roleKey = Inr True"
    by (simp add: HasSystemPermissions_def)
  then show "hasSystemPerms_ignoring_error sv w roleKey"
    by (simp add: hasSystemPerms_ignoring_error_def)
  from db show "isRoleExists w roleKey = Inr True"
    by (simp add: isRoleExists_def)
qed

lemma config_validator: "config (validator c w) = c"
  by (simp add: validator_def SetPermissionChecker_def NewSecurityValidator_def)

lemma system_role_manager_guards:
  assumes "GetRolePermissions w roleKey = Inr ps" and "p \<in> set ps"
    and "p \<in> set (SystemPermissions (config sv))"
  shows "roleManager_UpdateRole sv w operatorKey roleKey roleName description tenantKey permissions
           = (w, Some ErrSystemRoleImmutable)"
    and "roleManager_DeleteRole sv w roleKey = (w, Some ErrSystemRoleImmutable)"
    and "roleManager_SetRolePermissions sv w roleKey permissions = (w, Some ErrSystemRoleImmutable)"
    and "roleManager_GrantPermission sv w operatorKey roleKey q
           = (w, Some (if Permission.Resource q = [] \<or> Permission.Action q = []
                       then ErrInvalidParameter else ErrSystemRoleImmutable))"
    and "roleManager_RevokePermission sv w operatorKey roleKey q
           = (w, Some (if Permission.Resource q = [] \<or> Permission.Action q = []
                       then ErrInvalidParameter else ErrSystemRoleImmutable))"
  using system_role_detected [OF assms]
  by (simp_all add: roleManager_UpdateRole_def roleManager_DeleteRole_def
      roleManager_SetRolePermissions_def roleManager_GrantPermission_def
      roleManager_RevokePermission_def)

lemma system_role_engine_fails:
  assumes "GetRolePermissions w roleKey = Inr ps" and "p \<in> set ps"
    and "p \<in> set (SystemPermissions c)"
  shows "\<exists>err. casbinxClient_UpdateRole c w operatorKey roleKey roleName description tenantKey
                  permissions = (w, Some err)"
    and "\<exists>err. casbinxClient_GrantRolePermission c w operatorKey roleKey q = (w, Some err)"
    and "\<exists>err. casbinxClient_RevokeRolePermission c w operatorKey roleKey q = (w, Some err)"
    and "\<exists>err. casbinxClient_SetRolePermissions c w operatorKey roleKey permissions = (w, Some err)"
    and "casbinxClient_DeleteRole c w roleKey = (w, Some ErrSystemRoleImmutable)"
proof -
  from assms(3) have sys: "p \<in> set (SystemPermissions (config (validator c w)))"
    by (simp add: config_validator)
  note g = system_role_manager_guards [OF assms(1,2) sys]
  show "\<exists>err. casbinxClient_UpdateRole c w operatorKey roleKey roleName description tenantKey
                  permissions = (w, Some err)"
    by (simp add: casbinxClient_UpdateRole_def g assms(1) split: option.splits)
  show "\<exists>err. casbinxClient_GrantRolePermission c w operatorKey roleKey q = (w, Some err)"
    by (simp add: casbinxClient_GrantRolePermission_def g split: option.splits sum.splits)
  show "\<exists>err. casbinxClient_RevokeRolePermission c w operatorKey roleKey q = (w, Some err)"
    by (simp add: casbinxClient_RevokeRolePermission_def g split: option.splits sum.splits)
  show "\<exists>err. casbinxClient_SetRolePermissions c w operatorKey roleKey permissions = (w, Some err)"
    by (simp add: casbinxClient_SetRolePermissions_def g split: option.splits sum.splits)
  show "casbinxClient_DeleteRole c w roleKey = (w, Some ErrSystemRoleImmutable)"
    by (simp add: casbinxClient_DeleteRole_def g)
qed

lemma system_role_assignment:
  assumes "GetRolePermissions w roleKey = Inr ps" and "p \<in> set ps"
    and "p \<in> set (SystemPermissions c)"
  shows "casbinxClient_AssignRole c w operatorKey userKey roleKey tenantKey
           = (w, Some (case operator_may_manage_roles w operatorKey tenantKey of
                         Some err \<Rightarrow> err
                       | None \<Rightarrow> ErrSystemRoleAssignmentDenied))"
    and "operator_may_manage_roles w operatorKey tenantKey = None \<Longrightarrow> userKey \<noteq> [] \<Longrightarrow>
         roleKey \<in> set (GetRolesForUserInDomain (casbin_of w) userKey tenantKey) \<Longrightarrow>
         casbinxClient_RemoveRole c w operatorKey userKey roleKey tenantKey
           = (w, Some ErrSystemRoleRemovalDenied)"
    and "operator_may_manage_roles w operatorKey tenantKey = Some err \<Longrightarrow>
         casbinxClient_RemoveRole c w operatorKey userKey roleKey tenantKey = (w, Some err)"
proof -
  from assms(3) have sys: "p \<in> set (SystemPermissions (config (validator c w)))"
    by (simp add: config_validator)
  note d = system_role_detected [OF assms(1,2) sys]
  show "casbinxClient_AssignRole c w operatorKey userKey roleKey tenantKey
           = (w, Some (case operator_may_manage_roles w operatorKey tenantKey of
                         Some err \<Rightarrow> err
                       | None \<Rightarrow> ErrSystemRoleAssignmentDenied))"
    by (simp add: casbinxClient_AssignRole_def d split: option.splits)
  show "casbinxClient_RemoveRole c w operatorKey userKey roleKey tenantKey
           = (w, Some ErrSystemRoleRemovalDenied)"
    if "operator_may_manage_roles w operatorKey tenantKey = None" "userKey \<noteq> []"
      "roleKey \<in> set (GetRolesForUserInDomain (casbin_of w) userKey tenantKey)"
    using that
    by (simp add: casbinxClient_RemoveRole_def UserRoleHasSystemPermissions_def d
        IsRoleAssigned_def GetRolesForUser_def)
  show "casbinxClient_RemoveRole c w operatorKey userKey roleKey tenantKey = (w, Some err)"
    if "operator_may_manage_roles w operatorKey tenantKey = Some err"
    using that by (simp add: casbinxClient_RemoveRole_def)
qed

text \<open>
  C4 (as the code has it). Let a role be in the role table, with a permission list
  that \<open>GetRolePermissions\<close> returns and that contains a system permission. Then, for
  every operator and tenant: the role manager's \<open>UpdateRole\<close> and \<open>DeleteRole\<close> fail with
  \<open>SystemRoleImmutable\<close>; its \<open>GrantPermission\<close> and \<open>RevokePermission\<close> fail with
  \<open>SystemRoleImmutable\<close> (with \<open>InvalidParameter\<close> when the permission has an empty
  field); so the engine's \<open>UpdateRole\<close>, \<open>DeleteRole\<close>, \<open>GrantRolePermission\<close> and
  \<open>RevokeRolePermission\<close> fail too and change nothing. \<open>AssignRole\<close> always fails: with
  \<open>SystemRoleAssignmentDenied\<close> when the operator holds \<open>{user, write}\<close> and
  \<open>{role, write}\<close> in the tenant, with the error of that operator check otherwise.
  \<open>RemoveRole\<close> fails with the error of the operator check when the operator does not
  pass it, and with \<open>SystemRoleRemovalDenied\<close> when the operator passes and the user
  holds the role in that tenant.
\<close>

theorem system_role_operations_refused:
  assumes "GetRolePermissions w roleKey = Inr ps" and "p \<in> set ps"
    and "p \<in> set (SystemPermissions c)" and "config sv = c"
  shows "roleManager_UpdateRole sv w operatorKey roleKey roleName description tenantKey permissions
           = (w, Some ErrSystemRoleImmutable)
         \<and> roleManager_DeleteRole sv w roleKey = (w, Some ErrSystemRoleImmutable)
         \<and> roleManager_GrantPermission sv w operatorKey roleKey q
             = (w, Some (if Permission.Resource q = [] \<or> Permission.Action q = []
                         then ErrInvalidParameter else ErrSystemRoleImmutable))
         \<and> roleManager_RevokePermission sv w operatorKey roleKey q
             = (w, Some (if Permission.Resource q = [] \<or> Permission.Action q = []
                         then ErrInvalidParameter else ErrSystemRoleImmutable))
         \<and> (\<exists>err. casbinxClient_UpdateRole c w operatorKey roleKey roleName description tenantKey
                      permissions = (w, Some err))
         \<and> casbinxClient_DeleteRole c w roleKey = (w, Some ErrSystemRoleImmutable)
         \<and> (\<exists>err. casbinxClient_GrantRolePermission c w operatorKey roleKey q = (w, Some err))
         \<and> (\<exists>err. casbinxClient_RevokeRolePermission c w operatorKey roleKey q = (w, Some err))
         \<and> casbinxClient_AssignRole c w operatorKey userKey roleKey tenantKey
             = (w, Some (case operator_may_manage_roles w operatorKey tenantKey of
                           Some err \<Rightarrow> err
                         | None \<Rightarrow> ErrSystemRoleAssignmentDenied))
         \<and> (operator_may_manage_roles w operatorKey tenantKey = None \<and> userKey \<noteq> []
              \<and> roleKey \<in> set (GetRolesForUserInDomain (casbin_of w) userKey tenantKey)
              \<longrightarrow> casbinxClient_RemoveRole c w operatorKey userKey roleKey tenantKey
                    = (w, Some ErrSystemRoleRemovalDenied))
         \<and> (\<forall>err. operator_may_manage_roles w operatorKey tenantKey = Some err
              \<longrightarrow> casbinxClient_RemoveRole c w operatorKey userKey roleKey tenantKey = (w, Some err))"
proof -
  from assms(3,4) have sys: "p \<in> set (SystemPermissions (config sv))"
    by simp
  note m = system_role_manager_guards [OF assms(1,2) sys]
  note e = system_role_engine_fails [OF assms(1,2,3)]
  note a = system_role_assignment [OF assms(1,2,3)]
  show ?thesis
    by (intro conjI impI allI m(1,2,4,5) e a(1)) (use a(2,3) in blast)+
qed

text \<open>
  The example state with the system role is what the bootstrap path produces: before
  it, the role \<open>tenant_admin\<close> is held by nobody.
\<close>

lemma system_role_world_bootstrap:
  "casbinxClient_InitializeTenant DefaultSecurityConfig (system_role_world \<lparr> g_rules := [] \<rparr>)
       ''t1'' ''user1'' ''tenant_admin''
     = (system_role_world, None)"
  by (simp add: casbinxClient_InitializeTenant_def system_role_world_def model_defs)

lemma system_role_world_permissions:
  "GetRolePermissions system_role_world ''tenant_admin'' = Inr [\<lparr>Resource = ''user'', Action = ''write''\<rparr>]"
  by (simp add: system_role_world_def model_defs)

lemma op1_may_manage_roles: "operator_may_manage_roles system_role_world ''op1'' ''t1'' = None"
  by (simp add: system_role_world_def model_defs)

theorem system_role_operations_refused_witness:
  "roleManager_UpdateRole (validator DefaultSecurityConfig system_role_world) system_role_world
       ''op1'' ''tenant_admin'' ''Admin'' ''renamed'' ''t1'' []
     = (system_role_world, Some ErrSystemRoleImmutable)
   \<and> roleManager_DeleteRole (validator DefaultSecurityConfig system_role_world) system_role_world
       ''tenant_admin'' = (system_role_world, Some ErrSystemRoleImmutable)
   \<and> roleManager_GrantPermission (validator DefaultSecurityConfig system_role_world) system_role_world
       ''op1'' ''tenant_admin'' \<lparr>Resource = ''document'', Action = ''read''\<rparr>
     = (system_role_world, Some ErrSystemRoleImmutable)
   \<and> roleManager_RevokePermission (validator DefaultSecurityConfig system_role_world) system_role_world
       ''op1'' ''tenant_admin'' \<lparr>Resource = ''user'', Action = ''write''\<rparr>
     = (system_role_world, Some ErrSystemRoleImmutable)
   \<and> casbinxClient_AssignRole DefaultSecurityConfig system_role_world
       ''op1'' ''user2'' ''tenant_admin'' ''t1''
     = (system_role_world, Some ErrSystemRoleAssignmentDenied)
   \<and> casbinxClient_RemoveRole DefaultSecurityConfig system_role_world
       ''op1'' ''user1'' ''tenant_admin'' ''t1''
     = (system_role_world, Some ErrSystemRoleRemovalDenied)"
proof -
  have p: "\<lparr>Resource = ''user'', Action = ''write''\<rparr>
             \<in> set [\<lparr>Resource = ''user'', Action = ''write''\<rparr>]"
    by simp
  have sys: "\<lparr>Resource = ''user'', Action = ''write''\<rparr> \<in> set (SystemPermissions DefaultSecurityConfig)"
    by (simp add: DefaultSecurityConfig_def Action_defs Resource_defs)
  note t = system_role_operations_refused [OF system_role_world_permissions p sys config_validator,
      where operatorKey = "''op1''" and tenantKey = "''t1''"]
  have held: "''user1'' \<noteq> [] \<and> ''tenant_admin''
       \<in> set (GetRolesForUserInDomain (casbin_of system_role_world) ''user1'' ''t1'')"
    by (simp add: system_role_world_def store_defs)
  from t [where q = "\<lparr>Resource = ''document'', Action = ''read''\<rparr>"]
    t [where q = "\<lparr>Resource = ''user'', Action = ''write''\<rparr>" and userKey = "''user1''"]
    op1_may_manage_roles held
  show ?thesis
    by simp
qed

text \<open>
  C4 as stated fails. The role \<open>tenant_admin\<close> holds the system permission
  \<open>{user, write}\<close>, yet \<open>RemoveRole\<close> for a user that does not hold the role in the tenant
  returns no error, and \<open>AssignRole\<close> by an operator without \<open>{user, write}\<close> fails with
  the operator check's error, not with \<open>SystemRoleAssignmentDenied\<close>.
\<close>

theorem system_role_removal_not_always_refused:
  "GetRolePermissions system_role_world ''tenant_admin'' = Inr [\<lparr>Resource = ''user'', Action = ''write''\<rparr>]
   \<and> \<lparr>Resource = ''user'', Action = ''write''\<rparr> \<in> set (SystemPermissions DefaultSecurityConfig)
   \<and> casbinxClient_RemoveRole DefaultSecurityConfig system_role_world
       ''op1'' ''user2'' ''tenant_admin'' ''t1''
     = (system_role_world, None)
   \<and> casbinxClient_AssignRole DefaultSecurityConfig system_role_world
       ''guest'' ''user2'' ''tenant_admin'' ''t1''
     = (system_role_world,
        Some (Errorf ''operator lacks user management permission, cannot assign roles'' None))"
  by (simp add: system_role_world_def model_defs)

lemma g_fields_tuple: "g_fields (u, r, dm) = [u, r, dm]"
  by (simp add: g_fields_def)

lemma GetGroupingPolicies_loop_world:
  "GetGroupingPolicies_loop (map g_fields rules) =
     map (\<lambda>rule. \<lparr> UserKey = fst rule, RoleKey = fst (snd rule),
                    GroupingPolicy.TenantKey = snd (snd rule) \<rparr>) rules"
proof (induction rules)
  case Nil
  then show ?case by simp
next
  case (Cons rule rules)
  obtain u r dm where "rule = (u, r, dm)"
    by (cases rule) auto
  with Cons show ?case
    by (simp add: g_fields_tuple)
qed

lemma GetUsersWithRole_world:
  "GetUsersWithRole (casbin_of w) roleKey ''*'' =
     Inr (map fst (filter (\<lambda>rule. fst (snd rule) = roleKey \<and> snd (snd rule) = ''*'') (g_rules w)))"
  by (simp add: GetUsersWithRole_def GetGroupingPolicies_def casbin_of_def
      GetGroupingPolicies_loop_world filter_map comp_def)

lemma hasGlobalRoleAssignments_world:
  assumes "roleKey \<noteq> []"
  shows "hasGlobalRoleAssignments w roleKey = Inr (\<exists>userKey. (userKey, roleKey, ''*'') \<in> set (g_rules w))"
proof -
  have "filter (\<lambda>rule. fst (snd rule) = roleKey \<and> snd (snd rule) = ''*'') (g_rules w) \<noteq> []
          \<longleftrightarrow> (\<exists>userKey. (userKey, roleKey, ''*'') \<in> set (g_rules w))"
    by (force simp add: filter_empty_conv)
  with assms show ?thesis
    by (simp add: hasGlobalRoleAssignments_def roleManager_GetUsersWithRole_def
        GetUsersWithRole_world)
qed

text \<open>
  The global-domain role guard as the engine applies it, on \<open>UpdateRole\<close>,
  \<open>GrantRolePermission\<close>, \<open>RevokeRolePermission\<close> and \<open>SetRolePermissions\<close>: a role with a
  grouping rule in the global domain is not touched by an operator without
  \<open>{role, write}\<close> in the global domain.
\<close>

lemma global_role_guard:
  assumes "roleKey \<noteq> []" and "(userKey, roleKey, ''*'') \<in> set (g_rules w)"
    and "checkManager_CheckPermission (casbin_of w) operatorKey ''*''
           \<lparr>Resource = ''role'', Action = ''write''\<rparr> = Inr False"
  shows "validateGlobalRoleOperation w operatorKey roleKey = Some ErrGlobalRoleAccessDenied"
    and "casbinxClient_UpdateRole c w operatorKey roleKey roleName description tenantKey permissions
           = (w, Some ErrGlobalRoleAccessDenied)"
    and "casbinxClient_GrantRolePermission c w operatorKey roleKey q = (w, Some ErrGlobalRoleAccessDenied)"
    and "casbinxClient_RevokeRolePermission c w operatorKey roleKey q = (w, Some ErrGlobalRoleAccessDenied)"
    and "casbinxClient_SetRolePermissions c w operatorKey roleKey permissions
           = (w, Some ErrGlobalRoleAccessDenied)"
proof -
  from assms(2) have "\<exists>userKey. (userKey, roleKey, ''*'') \<in> set (g_rules w)"
    by blast
  with assms(1,3) show v: "validateGlobalRoleOperation w operatorKey roleKey = Some ErrGlobalRoleAccessDenied"
    by (simp add: validateGlobalRoleOperation_def hasGlobalRoleAssignments_world
        hasGlobalPermission_def ResourceRole_def ActionWrite_def)
  show "casbinxClient_UpdateRole c w operatorKey roleKey roleName description tenantKey permissions
           = (w, Some ErrGlobalRoleAccessDenied)"
    by (simp add: casbinxClient_UpdateRole_def v)
  show "casbinxClient_GrantRolePermission c w operatorKey roleKey q = (w, Some ErrGlobalRoleAccessDenied)"
    by (simp add: casbinxClient_GrantRolePermission_def v)
  show "casbinxClient_RevokeRolePermission c w operatorKey roleKey q = (w, Some ErrGlobalRoleAccessDenied)"
    by (simp add: casbinxClient_RevokeRolePermission_def v)
  show "casbinxClient_SetRolePermissions c w operatorKey roleKey permissions
           = (w, Some ErrGlobalRoleAccessDenied)"
    by (simp add: casbinxClient_SetRolePermissions_def v)
qed

text \<open>
  C5, evaluated where the code leaves the guard out. In the example state the role
  \<open>auditor\<close> has a grouping rule in the global domain and nobody holds \<open>{role, write}\<close>
  in the global domain. \<open>UpdateRole\<close> and \<open>SetRolePermissions\<close> by \<open>admin1\<close> are refused
  with \<open>GlobalRoleAccessDenied\<close>, as the claim says. \<open>DeleteRole\<close>, which takes no
  operator and does not run the guard, succeeds: it removes the role's rules and its row
  in the role table.
\<close>

theorem DeleteRole_skips_global_role_guard:
  "hasGlobalRoleAssignments admin_world ''auditor'' = Inr True
   \<and> (\<forall>subject. checkManager_CheckPermission (casbin_of admin_world) subject ''*''
         \<lparr>Resource = ''role'', Action = ''write''\<rparr> = Inr False)
   \<and> casbinxClient_UpdateRole DefaultSecurityConfig admin_world
       ''admin1'' ''auditor'' ''Auditor'' ''reads users'' ''*'' [\<lparr>Resource = ''user'', Action = ''read''\<rparr>]
     = (admin_world, Some ErrGlobalRoleAccessDenied)
   \<and> casbinxClient_SetRolePermissions DefaultSecurityConfig admin_world ''admin1'' ''auditor'' []
     = (admin_world, Some ErrGlobalRoleAccessDenied)
   \<and> casbinxClient_DeleteRole DefaultSecurityConfig admin_world ''auditor''
     = (admin_world
          \<lparr> p_rules := [ (''admin1'', ''t1'', ''user'', ''write''),
                         (''admin1'', ''t1'', ''role'', ''write''),
                         (''admin1'', ''t1'', ''permission'', ''write''),
                         (''editor'', ''t1'', ''document'', ''write'') ],
            roles_tbl := (roles_tbl admin_world) (''auditor'' := None) \<rparr>, None)"
proof -
  have a: "hasGlobalRoleAssignments admin_world ''auditor'' = Inr True"
    by (simp add: admin_world_def model_defs)
  have b: "checkManager_CheckPermission (casbin_of admin_world) subject ''*''
         \<lparr>Resource = ''role'', Action = ''write''\<rparr> = Inr False" for subject
  proof -
    obtain ps where ps: "GetImplicitPermissions (casbin_of admin_world) subject ''*'' = Inr ps"
      using GetImplicitPermissions_world_total [OF wf_admin_world] by blast
    have "\<lparr>Resource = ''role'', Action = ''write''\<rparr> \<notin> PermissionsOf (casbin_of admin_world) s ''*''" for s
      by (auto simp add: PermissionsOf_world admin_world_def p_permission_def p_matches_def)
    then have "\<lparr>Resource = ''role'', Action = ''write''\<rparr> \<notin> set ps"
      unfolding GetImplicitPermissions_set [OF ps] by simp
    then show ?thesis
      by (simp add: CheckPermission_Inr [OF ps])
  qed
  have g: "(''user9'', ''auditor'', ''*'') \<in> set (g_rules admin_world)"
    by (simp add: admin_world_def)
  have k: "''auditor'' \<noteq> []"
    by simp
  note guard = global_role_guard [OF k g b]
  have d: "casbinxClient_DeleteRole DefaultSecurityConfig admin_world ''auditor''
     = (admin_world
          \<lparr> p_rules := [ (''admin1'', ''t1'', ''user'', ''write''),
                         (''admin1'', ''t1'', ''role'', ''write''),
                         (''admin1'', ''t1'', ''permission'', ''write''),
                         (''editor'', ''t1'', ''document'', ''write'') ],
            roles_tbl := (roles_tbl admin_world) (''auditor'' := None) \<rparr>, None)"
    by (simp add: admin_world_def model_defs)
  from a b guard(2,5) d show ?thesis
    by (intro conjI allI)
qed

section \<open>Direct and effective permissions on the store\<close>

text \<open>
  On the in-memory store the two queries agree as the union property needs: what
  \<open>GetDirectPermissions\<close> returns for a subject and a domain is among what
  \<open>GetImplicitPermissions\<close> returns for them.
\<close>

lemma direct_permissions_are_effective:
  assumes "GetDirectPermissions (casbin_of w) u d = Inr direct"
    and "GetImplicitPermissions (casbin_of w) u d = Inr effective"
  shows "set direct \<subseteq> set effective"
proof
  fix p
  assume p: "p \<in> set direct"
  have all: "GetPolicy (casbin_of w) = Inr (map p_fields (p_rules w))"
    by (simp add: casbin_of_def)
  let ?matching = "filter (matches_subject_domain u d) (map p_fields (p_rules w))"
  have "list_all (\<lambda>policy. validAction (policy ! 3)) ?matching"
  proof (rule ccontr)
    assume "\<not> list_all (\<lambda>policy. validAction (policy ! 3)) ?matching"
    then have "isl (GetDirectPermissions_loop u d (map p_fields (p_rules w)))"
      by (rule GetDirectPermissions_loop_invalid)
    with assms(1) all show False
      by (simp add: GetDirectPermissions_def)
  qed
  then have "direct = map toPermission ?matching"
    using assms(1) all by (simp add: GetDirectPermissions_def GetDirectPermissions_loop_valid)
  with p obtain rule where rule: "rule \<in> set (p_rules w)"
    and m: "matches_subject_domain u d (p_fields rule)" and p_eq: "p = toPermission (p_fields rule)"
    by auto
  obtain s dm r a where r: "rule = (s, dm, r, a)"
    by (cases rule) auto
  with m have "p_matches u d rule"
    by (simp add: matches_subject_domain_def p_fields_tuple p_matches_tuple)
  with rule p_eq have "p \<in> PermissionsOf (casbin_of w) u d"
    unfolding PermissionsOf_world by (auto simp add: toPermission_p_fields)
  then show "p \<in> set effective"
    unfolding GetImplicitPermissions_set [OF assms(2)] by blast
qed

end
